theory Spec2Isabelle
  imports Complex_Main "HOL-Library.Sublist"
begin

section \<open>Python strings\<close>

text \<open>
  A Python \<^verbatim>\<open>str\<close> is a sequence of Unicode code points. The reports, prompts and
  keywords of this program are Vietnamese, so a string is modelled as the list of its
  code points (natural numbers); \<open>ustr\<close> writes an ASCII literal as such a list.
\<close>

type_synonym pystr = "nat list"

definition ustr :: "string \<Rightarrow> pystr" where
  "ustr s = map of_char s"

text \<open>
  The code points \<^verbatim>\<open>str.strip()\<close> removes: those for which \<^verbatim>\<open>str.isspace()\<close>
  holds (CPython's \<^verbatim>\<open>Py_UNICODE_ISSPACE\<close>).
\<close>

definition is_space :: "nat \<Rightarrow> bool" where
  "is_space c = (c \<in> set [9, 10, 11, 12, 13, 28, 29, 30, 31, 32, 133, 160, 5760,
     8192, 8193, 8194, 8195, 8196, 8197, 8198, 8199, 8200, 8201, 8202,
     8232, 8233, 8239, 8287, 12288])"

definition strip :: "pystr \<Rightarrow> pystr" where
  "strip s = rev (dropWhile is_space (rev (dropWhile is_space s)))"

definition startswith :: "pystr \<Rightarrow> pystr \<Rightarrow> bool" where
  "startswith s p = prefix p s"

text \<open>\<^verbatim>\<open>kw in s\<close> for two strings: \<open>kw\<close> occurs in \<open>s\<close> as a contiguous run.\<close>

fun contains :: "pystr \<Rightarrow> pystr \<Rightarrow> bool" where
  "contains [] kw = (kw = [])"
| "contains (c # cs) kw = (prefix kw (c # cs) \<or> contains cs kw)"

text \<open>
  \<^verbatim>\<open>s.split(sep)\<close> for a non-empty separator: the pieces between the occurrences of
  \<open>sep\<close>, found from the left without overlap. \<open>cur\<close> is the piece being read.
\<close>

function split_from :: "pystr \<Rightarrow> pystr \<Rightarrow> pystr \<Rightarrow> pystr list" where
  "split_from sep cur [] = [cur]"
| "split_from sep cur (c # cs) =
     (if sep \<noteq> [] \<and> prefix sep (c # cs)
      then cur # split_from sep [] (drop (length sep) (c # cs))
      else split_from sep (cur @ [c]) cs)"
  by pat_completeness auto
termination
  by (relation "measure (\<lambda>(sep, cur, s). length s)") auto

definition str_split :: "pystr \<Rightarrow> pystr \<Rightarrow> pystr list" where
  "str_split s sep = split_from sep [] s"

section \<open>JSON values and exceptions\<close>

text \<open>
  What \<^verbatim>\<open>json.loads\<close> returns, and what the dictionaries of this program hold: a
  \<^verbatim>\<open>dict\<close> is an association list in insertion order, read at the first binding
  of a key. A \<^verbatim>\<open>float\<close> is carried as a rational: the program passes such numbers on
  and never computes with them.
\<close>

datatype json =
    JNull
  | JBool bool
  | JInt int
  | JFloat rat
  | JStr pystr
  | JArr "json list"
  | JObj "(pystr \<times> json) list"

text \<open>
  Exceptions, by class. \<open>KeyError\<close> carries the missing key, \<open>ValueError\<close> and
  \<open>HTTPException\<close> the message (and status code) the raising code gives them;
  \<open>Other\<close> stands for every other class, raised by a library, with a description.
\<close>

datatype exn =
    KeyError json
  | ValueError pystr
  | TypeError
  | AttributeError
  | IndexError
  | HTTPException nat pystr
  | Other pystr

text \<open>\<^verbatim>\<open>xs[i]\<close> for a list and a constant index \<open>i \<ge> 0\<close>.\<close>

definition list_item :: "'a list \<Rightarrow> nat \<Rightarrow> exn + 'a" where
  "list_item xs i = (if i < length xs then Inr (xs ! i) else Inl IndexError)"

text \<open>\<^verbatim>\<open>xs[:n]\<close>: a negative \<open>n\<close> counts from the end.\<close>

definition slice_to :: "int \<Rightarrow> 'a list \<Rightarrow> 'a list" where
  "slice_to n xs = (if 0 \<le> n then take (nat n) xs else take (length xs - nat (- n)) xs)"

section \<open>Stripping the markdown fence from a completion\<close>

text \<open>
  \<^verbatim>\<open>smart_chart_generator.py\<close>, lines 108 to 115 (the same statements stand at lines 152 to
  159 and in \<^verbatim>\<open>api_service.py\<close>, lines 721 to 726), applied to the completion's text:
  \<^verbatim>\<open>
    result = content.strip()
    if result.startswith("```"):
        result = result.split("```")[1]
        if result.startswith("json"):
            result = result[4:]
    result = result.strip()
  \<close>
  The source has no name for these statements; the specification calls them
  \<^verbatim>\<open>normalize\<close>.
\<close>

definition fence :: pystr where
  "fence = ustr ''```''"

definition normalize :: "pystr \<Rightarrow> exn + pystr" where
  "normalize content =
     (let result = strip content in
      if startswith result fence then
        (case list_item (str_split result fence) 1 of
           Inl e \<Rightarrow> Inl e
         | Inr result \<Rightarrow>
             let result = (if startswith result (ustr ''json'') then drop 4 result else result)
             in Inr (strip result))
      else Inr (strip result))"

text \<open>
  The policy of the specification, section 4.1, written from its words: the trimmed
  input when it does not begin with a fence; otherwise the content between the opening
  fence and the next one (the rest of the text when no fence closes it), without a
  leading \<^verbatim>\<open>json\<close> tag, trimmed.
\<close>

fun until_fence :: "pystr \<Rightarrow> pystr" where
  "until_fence [] = []"
| "until_fence (c # cs) = (if prefix fence (c # cs) then [] else c # until_fence cs)"

definition spec_normalize :: "pystr \<Rightarrow> pystr" where
  "spec_normalize raw =
     (let t = strip raw in
      if prefix fence t then
        (let body = until_fence (drop 3 t);
             body = (if prefix (ustr ''json'') body then drop 4 body else body)
         in strip body)
      else t)"

section \<open>The Python operations the program applies to JSON values\<close>

text \<open>Truth value of an object, as \<^verbatim>\<open>if x:\<close> and \<^verbatim>\<open>not x\<close> take it.\<close>

fun truthy :: "json \<Rightarrow> bool" where
  "truthy JNull = False"
| "truthy (JBool b) = b"
| "truthy (JInt i) = (i \<noteq> 0)"
| "truthy (JFloat r) = (r \<noteq> 0)"
| "truthy (JStr s) = (s \<noteq> [])"
| "truthy (JArr xs) = (xs \<noteq> [])"
| "truthy (JObj d) = (d \<noteq> [])"

text \<open>\<^verbatim>\<open>x.get(k, default)\<close>: only a \<^verbatim>\<open>dict\<close> has the method.\<close>

fun get_method :: "json \<Rightarrow> pystr \<Rightarrow> json \<Rightarrow> exn + json" where
  "get_method (JObj d) k dflt = Inr (case map_of d k of Some v \<Rightarrow> v | None \<Rightarrow> dflt)"
| "get_method _ k dflt = Inl AttributeError"

text \<open>\<^verbatim>\<open>x[k]\<close> for a string key \<open>k\<close>.\<close>

fun getitem :: "json \<Rightarrow> pystr \<Rightarrow> exn + json" where
  "getitem (JObj d) k = (case map_of d k of Some v \<Rightarrow> Inr v | None \<Rightarrow> Inl (KeyError (JStr k)))"
| "getitem _ k = Inl TypeError"

text \<open>
  \<^verbatim>\<open>x[k] = v\<close> for a string key: a present key keeps its place, a new one goes last.
\<close>

fun dict_set :: "(pystr \<times> json) list \<Rightarrow> pystr \<Rightarrow> json \<Rightarrow> (pystr \<times> json) list" where
  "dict_set [] k v = [(k, v)]"
| "dict_set (p # ps) k v = (if fst p = k then (k, v) # ps else p # dict_set ps k v)"

fun setitem :: "json \<Rightarrow> pystr \<Rightarrow> json \<Rightarrow> exn + json" where
  "setitem (JObj d) k v = Inr (JObj (dict_set d k v))"
| "setitem _ k v = Inl TypeError"

text \<open>\<^verbatim>\<open>len(x)\<close>.\<close>

fun len :: "json \<Rightarrow> exn + nat" where
  "len (JStr s) = Inr (length s)"
| "len (JArr xs) = Inr (length xs)"
| "len (JObj d) = Inr (length d)"
| "len _ = Inl TypeError"

text \<open>
  \<^verbatim>\<open>enumerate(x[:n])\<close>: the items the loop visits. A list and a string can be sliced
  (a string's items are its characters); slicing anything else raises.
\<close>

fun sliced_items :: "json \<Rightarrow> int \<Rightarrow> exn + json list" where
  "sliced_items (JArr xs) n = Inr (slice_to n xs)"
| "sliced_items (JStr s) n = Inr (map (\<lambda>c. JStr [c]) (slice_to n s))"
| "sliced_items _ n = Inl TypeError"

section \<open>The Python runtime and the language-model client\<close>

text \<open>
  The built-in and library functions the program calls are not part of the repository.
  They are parameters of the model. A theorem holds whatever they compute, unless it
  names what it needs of one: several need \<open>str_format\<close> to be CPython's, which is
  written down further on (\<open>cpython_format\<close>).
  \<^item> \<open>str_format\<close>: \<^verbatim>\<open>template.format(**kwargs)\<close> with string arguments;
  \<^item> \<open>json_loads\<close>: \<^verbatim>\<open>json.loads\<close>, \<open>None\<close> when it raises \<^verbatim>\<open>JSONDecodeError\<close>;
  \<^item> \<open>json_dumps\<close>: \<^verbatim>\<open>json.dumps(x, ensure_ascii=False, indent=2)\<close>;
  \<^item> \<open>str_lower\<close>: \<^verbatim>\<open>str.lower\<close>;
  \<^item> \<open>str_of\<close>: \<^verbatim>\<open>str(x)\<close> of a value that is not a string, as an f-string prints it;
  \<^item> \<open>str_of_exn\<close>: \<^verbatim>\<open>str(e)\<close> of an exception.
\<close>

record builtins =
  str_format :: "pystr \<Rightarrow> (pystr \<times> pystr) list \<Rightarrow> exn + pystr"
  json_loads :: "pystr \<Rightarrow> json option"
  json_dumps :: "json \<Rightarrow> pystr"
  str_lower :: "pystr \<Rightarrow> pystr"
  str_of :: "json \<Rightarrow> pystr"
  str_of_exn :: "exn \<Rightarrow> pystr"

definition py_str :: "builtins \<Rightarrow> json \<Rightarrow> pystr" where
  "py_str py v = (case v of JStr s \<Rightarrow> s | _ \<Rightarrow> str_of py v)"

definition exn_str :: "builtins \<Rightarrow> exn \<Rightarrow> pystr" where
  "exn_str py e = (case e of ValueError m \<Rightarrow> m | _ \<Rightarrow> str_of_exn py e)"

text \<open>
  A chat-completion request as the program builds it, and the two fields of the response
  it reads: \<^verbatim>\<open>choices[0].message.content\<close> and \<^verbatim>\<open>usage.total_tokens\<close>.
  The client is a state transformer over a state \<open>'s\<close> of the service, so that two
  calls with the same request may answer differently; it may raise.
\<close>

datatype part = TextPart pystr | ImageUrl pystr

datatype msg_content = Text pystr | Parts "part list"

record chat_request =
  model :: pystr
  messages :: "(pystr \<times> msg_content) list"
  temperature :: "rat option"
  max_tokens :: nat

record chat_response =
  content :: pystr
  total_tokens :: nat

type_synonym 's client = "'s \<Rightarrow> chat_request \<Rightarrow> (exn + chat_response) \<times> 's"

section \<open>The chart generator (\<^verbatim>\<open>smart_chart_generator.py\<close>)\<close>

subsection \<open>Its constants\<close>

text \<open>The two prompt templates of \<^verbatim>\<open>SmartChartGenerator\<close>, code point for code point.\<close>

definition EXTRACTION_PROMPT :: pystr where
  "EXTRACTION_PROMPT =
     ustr ''B'' @ [7841] @ ustr ''n l'' @ [224] @ ustr '' chuy'' @ [234] @
     ustr ''n gia ph'' @ [226] @ ustr ''n t'' @ [237] @ ustr ''ch b'' @ [225] @
     ustr ''o c'' @ [225] @ ustr ''o t'' @ [224] @ ustr ''i ch'' @ [237] @ ustr ''nh v'' @
     [224] @ ustr '' data visualization.'' @ [10, 10] @ ustr ''NHI'' @ [7878] @
     ustr ''M V'' @ [7908] @ ustr '': Tr'' @ [237] @ ustr ''ch xu'' @ [7845] @
     ustr ''t T'' @ [7844] @ ustr ''T C'' @ [7842] @ ustr '' d'' @ [7919] @ ustr '' li'' @
     [7879] @ ustr ''u s'' @ [7889] @ ustr '' t'' @ [7915] @ ustr '' b'' @ [225] @
     ustr ''o c'' @ [225] @ ustr ''o t'' @ [224] @ ustr ''i ch'' @ [237] @ ustr ''nh v'' @
     [224] @ ustr '' '' @ [273, 7873] @ ustr '' xu'' @ [7845] @ ustr ''t c'' @ [225] @
     ustr ''c bi'' @ [7875] @ ustr ''u '' @ [273, 7891] @ ustr '' ph'' @ [249] @
     ustr '' h'' @ [7907] @ ustr ''p.'' @ [10, 10] @ ustr ''QUY T'' @ [7854] @
     ustr ''C QUAN TR'' @ [7884] @ ustr ''NG:'' @ [10] @ ustr ''1. T'' @ [236] @
     ustr ''m t'' @ [7845] @ ustr ''t c'' @ [7843] @ ustr '' c'' @ [225] @ ustr ''c b'' @
     [7843] @ ustr ''ng s'' @ [7889] @ ustr '' li'' @ [7879] @ ustr ''u, ch'' @ [7881] @
     ustr '' s'' @ [7889] @ ustr '' t'' @ [224] @ ustr ''i ch'' @ [237] @ ustr ''nh'' @
     [10] @ ustr ''2. Tr'' @ [237] @ ustr ''ch xu'' @ [7845] @ ustr ''t s'' @ [7889] @
     ustr '' li'' @ [7879] @ ustr ''u CH'' @ [205] @ ustr ''NH X'' @ [193] @
     ustr ''C (gi'' @ [7919] @ ustr '' nguy'' @ [234] @ ustr ''n '' @ [273, 417] @
     ustr ''n v'' @ [7883] @ ustr '': tri'' @ [7879] @ ustr ''u, t'' @ [7927] @
     ustr '', %, v.v.)'' @ [10] @ ustr ''3. Nh'' @ [243] @ ustr ''m d'' @ [7919] @
     ustr '' li'' @ [7879] @ ustr ''u theo lo'' @ [7841] @ ustr ''i: doanh thu, l'' @
     [7907] @ ustr ''i nhu'' @ [7853] @ ustr ''n, t'' @ [224] @ ustr ''i s'' @ [7843] @
     ustr ''n, n'' @ [7907] @ ustr '', t'' @ [7927] @ ustr '' l'' @ [7879] @ ustr ''...'' @
     [10] @ ustr ''4. '' @ [272, 7873] @ ustr '' xu'' @ [7845] @ ustr ''t 3-5 bi'' @
     [7875] @ ustr ''u '' @ [273, 7891] @ ustr '' quan tr'' @ [7885] @ ustr ''ng nh'' @
     [7845] @ ustr ''t'' @ [10, 10, 272, 7882] @ ustr ''NH D'' @ [7840] @
     ustr ''NG OUTPUT (JSON):'' @ [10] @ ustr ''{'' @ [10] @ ustr ''    '' @ [34] @
     ustr ''extracted_data'' @ [34] @ ustr '': {'' @ [10] @ ustr ''        '' @ [34] @
     ustr ''revenue'' @ [34] @ ustr '': {'' @ [10] @ ustr ''            '' @ [34] @
     ustr ''periods'' @ [34] @ ustr '': ['' @ [34] @ ustr ''Q1 2024'' @ [34] @ ustr '', '' @
     [34] @ ustr ''Q2 2024'' @ [34] @ ustr '', ...],'' @ [10] @ ustr ''            '' @
     [34] @ ustr ''values'' @ [34] @ ustr '': [100, 120, ...],'' @ [10] @
     ustr ''            '' @ [34] @ ustr ''unit'' @ [34] @ ustr '': '' @ [34] @ ustr ''t'' @
     [7927] @ ustr '' VN'' @ [272, 34, 10] @ ustr ''        },'' @ [10] @
     ustr ''        '' @ [34] @ ustr ''profit'' @ [34] @ ustr '': {...},'' @ [10] @
     ustr ''        '' @ [34] @ ustr ''assets'' @ [34] @ ustr '': {...},'' @ [10] @
     ustr ''        '' @ [34] @ ustr ''liabilities'' @ [34] @ ustr '': {...}'' @ [10] @
     ustr ''    },'' @ [10] @ ustr ''    '' @ [34] @ ustr ''recommended_charts'' @ [34] @
     ustr '': ['' @ [10] @ ustr ''        {'' @ [10] @ ustr ''            '' @ [34] @
     ustr ''title'' @ [34] @ ustr '': '' @ [34] @ ustr ''T'' @ [234] @ ustr ''n bi'' @
     [7875] @ ustr ''u '' @ [273, 7891, 34] @ ustr '','' @ [10] @ ustr ''            '' @
     [34] @ ustr ''type'' @ [34] @ ustr '': '' @ [34] @ ustr ''line|bar|pie|area|scatter'' @
     [34] @ ustr '','' @ [10] @ ustr ''            '' @ [34] @ ustr ''data_source'' @ [34] @
     ustr '': '' @ [34] @ ustr ''revenue|profit|assets|...'' @ [34] @ ustr '','' @ [10] @
     ustr ''            '' @ [34] @ ustr ''priority'' @ [34] @ ustr '': 1,'' @ [10] @
     ustr ''            '' @ [34] @ ustr ''description'' @ [34] @ ustr '': '' @ [34] @
     ustr ''Gi'' @ [7843] @ ustr ''i th'' @ [237] @ ustr ''ch t'' @ [7841] @
     ustr ''i sao c'' @ [7847] @ ustr ''n bi'' @ [7875] @ ustr ''u '' @ [273, 7891] @
     ustr '' n'' @ [224] @ ustr ''y'' @ [34, 10] @ ustr ''        }'' @ [10] @
     ustr ''    ]'' @ [10] @ ustr ''}'' @ [10, 10] @ ustr ''B'' @ [193] @ ustr ''O C'' @
     [193] @ ustr ''O T'' @ [192] @ ustr ''I CH'' @ [205] @ ustr ''NH:'' @ [10] @
     ustr ''{report_content}'' @ [10]"

definition CHART_GENERATION_PROMPT :: pystr where
  "CHART_GENERATION_PROMPT =
     ustr ''B'' @ [7841] @ ustr ''n l'' @ [224] @ ustr '' chuy'' @ [234] @
     ustr ''n gia t'' @ [7841] @ ustr ''o bi'' @ [7875] @ ustr ''u '' @ [273, 7891] @
     ustr '' t'' @ [7915] @ ustr '' d'' @ [7919] @ ustr '' li'' @ [7879] @ ustr ''u t'' @
     [224] @ ustr ''i ch'' @ [237] @ ustr ''nh.'' @ [10, 10] @ ustr ''NHI'' @ [7878] @
     ustr ''M V'' @ [7908] @ ustr '': T'' @ [7841] @ ustr ''o c'' @ [7845] @ ustr ''u h'' @
     [236] @ ustr ''nh bi'' @ [7875] @ ustr ''u '' @ [273, 7891] @ ustr '' CH'' @ [205] @
     ustr ''NH X'' @ [193] @ ustr ''C '' @ [273, 7875] @ ustr '' v'' @ [7869] @
     ustr '' ngay l'' @ [7853] @ ustr ''p t'' @ [7913] @ ustr ''c.'' @ [10, 10] @
     ustr ''D'' @ [7918] @ ustr '' LI'' @ [7878] @ ustr ''U '' @ [272, 195] @ ustr '' TR'' @
     [205] @ ustr ''CH XU'' @ [7844] @ ustr ''T:'' @ [10] @ ustr ''{extracted_data}'' @
     [10, 10] @ ustr ''Y'' @ [202] @ ustr ''U C'' @ [7846] @ ustr ''U BI'' @ [7874] @
     ustr ''U '' @ [272, 7890] @ ustr '': {chart_request}'' @ [10, 10, 272, 7882] @
     ustr ''NH D'' @ [7840] @ ustr ''NG OUTPUT (JSON - KH'' @ [212] @ ustr ''NG TH'' @
     [202] @ ustr ''M TEXT):'' @ [10] @ ustr ''{'' @ [10] @ ustr ''    '' @ [34] @
     ustr ''chart_type'' @ [34] @ ustr '': '' @ [34] @
     ustr ''line|bar|pie|area|scatter|heatmap'' @ [34] @ ustr '','' @ [10] @ ustr ''    '' @
     [34] @ ustr ''title'' @ [34] @ ustr '': '' @ [34] @ ustr ''Ti'' @ [234] @ ustr ''u '' @
     [273, 7873] @ ustr '' bi'' @ [7875] @ ustr ''u '' @ [273, 7891] @ ustr '' c'' @
     [7909] @ ustr '' th'' @ [7875, 34] @ ustr '','' @ [10] @ ustr ''    '' @ [34] @
     ustr ''xlabel'' @ [34] @ ustr '': '' @ [34] @ ustr ''Nh'' @ [227] @ ustr ''n tr'' @
     [7909] @ ustr ''c X (n'' @ [7871] @ ustr ''u c'' @ [243] @ ustr '')'' @ [34] @
     ustr '','' @ [10] @ ustr ''    '' @ [34] @ ustr ''ylabel'' @ [34] @ ustr '': '' @
     [34] @ ustr ''Nh'' @ [227] @ ustr ''n tr'' @ [7909] @ ustr ''c Y (n'' @ [7871] @
     ustr ''u c'' @ [243] @ ustr '')'' @ [34] @ ustr '', '' @ [10] @ ustr ''    '' @ [34] @
     ustr ''data'' @ [34] @ ustr '': {'' @ [10] @ ustr ''        // D'' @ [7919] @
     ustr '' li'' @ [7879] @ ustr ''u ch'' @ [237] @ ustr ''nh x'' @ [225] @
     ustr ''c theo format c'' @ [7911] @ ustr ''a chart_type:'' @ [10] @
     ustr ''        // line/bar/area: {'' @ [34] @ ustr ''x'' @ [34] @ ustr '': [...], '' @
     [34] @ ustr ''y'' @ [34] @ ustr '': [...], '' @ [34] @ ustr ''label'' @ [34] @
     ustr '': '' @ [34] @ ustr ''...'' @ [34] @ ustr ''}'' @ [10] @
     ustr ''        // pie: {'' @ [34] @ ustr ''labels'' @ [34] @ ustr '': [...], '' @
     [34] @ ustr ''values'' @ [34] @ ustr '': [...]}'' @ [10] @
     ustr ''        // scatter: {'' @ [34] @ ustr ''x'' @ [34] @ ustr '': [...], '' @ [34] @
     ustr ''y'' @ [34] @ ustr '': [...], '' @ [34] @ ustr ''sizes'' @ [34] @
     ustr '': [...]}'' @ [10] @ ustr ''    }'' @ [10] @ ustr ''}'' @ [10, 10] @ ustr ''L'' @
     [431] @ ustr ''U '' @ [221] @ ustr '': S'' @ [7889] @ ustr '' li'' @ [7879] @
     ustr ''u ph'' @ [7843] @ ustr ''i CH'' @ [205] @ ustr ''NH X'' @ [193] @ ustr ''C t'' @
     [7915] @ ustr '' d'' @ [7919] @ ustr '' li'' @ [7879] @ ustr ''u '' @ [273, 227] @
     ustr '' tr'' @ [237] @ ustr ''ch xu'' @ [7845] @ ustr ''t!'' @ [10]"

definition extraction_system_message :: pystr where
  "extraction_system_message =
     ustr ''B'' @ [7841] @ ustr ''n l'' @ [224] @ ustr '' chuy'' @ [234] @
     ustr ''n gia ph'' @ [226] @ ustr ''n t'' @ [237] @ ustr ''ch t'' @ [224] @
     ustr ''i ch'' @ [237] @ ustr ''nh. Tr'' @ [7843] @ ustr '' v'' @ [7873] @ ustr '' '' @
     [272, 218] @ ustr ''NG format JSON.''"

definition chart_system_message :: pystr where
  "chart_system_message =
     ustr ''B'' @ [7841] @ ustr ''n l'' @ [224] @ ustr '' chuy'' @ [234] @
     ustr ''n gia data visualization. Tr'' @ [7843] @ ustr '' v'' @ [7873] @ ustr '' '' @
     [272, 218] @ ustr ''NG format JSON.''"

definition invalid_json_message :: pystr where
  "invalid_json_message =
     ustr ''AI kh'' @ [244] @ ustr ''ng tr'' @ [7843] @ ustr '' v'' @ [7873] @
     ustr '' JSON h'' @ [7907] @ ustr ''p l'' @ [7879] @ ustr '': ''"

definition invalid_config_message :: pystr where
  "invalid_config_message =
     ustr ''Kh'' @ [244] @ ustr ''ng th'' @ [7875] @ ustr '' parse c'' @ [7845] @
     ustr ''u h'' @ [236] @ ustr ''nh bi'' @ [7875] @ ustr ''u '' @ [273, 7891] @ ustr '': ''"

definition no_data_message :: pystr where
  "no_data_message =
     ustr ''Kh'' @ [244] @ ustr ''ng th'' @ [7875] @ ustr '' tr'' @ [237] @ ustr ''ch xu'' @
     [7845] @ ustr ''t d'' @ [7919] @ ustr '' li'' @ [7879] @ ustr ''u t'' @ [7915] @
     ustr '' b'' @ [225] @ ustr ''o c'' @ [225] @ ustr ''o''"

definition default_chart_request :: pystr where
  "default_chart_request =
     ustr ''T'' @ [7841] @ ustr ''o bi'' @ [7875] @ ustr ''u '' @ [273, 7891] @
     ustr '' quan tr'' @ [7885] @ ustr ''ng nh'' @ [7845] @ ustr ''t''"

text \<open>The chart-intent keywords of \<^verbatim>\<open>integrate_smart_chart_to_api\<close> (line 241).\<close>

definition chart_keywords :: "pystr list" where
  "chart_keywords =
     [ustr ''bi'' @ [7875] @ ustr ''u '' @ [273, 7891],
      ustr ''chart'',
      ustr ''v'' @ [7869],
      ustr ''graph'']"

subsection \<open>\<^verbatim>\<open>extract_financial_data\<close> (lines 89 to 120)\<close>

definition extract_financial_data ::
  "builtins \<Rightarrow> 's client \<Rightarrow> 's \<Rightarrow> pystr \<Rightarrow> (exn + json) \<times> 's" where
  "extract_financial_data py client s report_content =
     (case str_format py EXTRACTION_PROMPT [(ustr ''report_content'', report_content)] of
        Inl e \<Rightarrow> (Inl e, s)
      | Inr prompt \<Rightarrow>
          (case client s \<lparr>model = ustr ''gpt-4o'',
                          messages = [(ustr ''system'', Text extraction_system_message),
                                      (ustr ''user'', Text prompt)],
                          temperature = Some (3 / 10),
                          max_tokens = 3000\<rparr> of
             (Inl e, s') \<Rightarrow> (Inl e, s')
           | (Inr response, s') \<Rightarrow>
               (case normalize (content response) of
                  Inl e \<Rightarrow> (Inl e, s')
                | Inr result \<Rightarrow>
                    (case json_loads py result of
                       Some v \<Rightarrow> (Inr v, s')
                     | None \<Rightarrow> (Inl (ValueError (invalid_json_message @ take 200 result)), s')))))"

subsection \<open>\<^verbatim>\<open>generate_chart_config\<close> (lines 122 to 164)\<close>

definition generate_chart_config ::
  "builtins \<Rightarrow> 's client \<Rightarrow> 's \<Rightarrow> json \<Rightarrow> pystr \<Rightarrow> (exn + json) \<times> 's" where
  "generate_chart_config py client s extracted_data chart_request =
     (case str_format py CHART_GENERATION_PROMPT
             [(ustr ''extracted_data'', json_dumps py extracted_data),
              (ustr ''chart_request'', chart_request)] of
        Inl e \<Rightarrow> (Inl e, s)
      | Inr prompt \<Rightarrow>
          (case client s \<lparr>model = ustr ''gpt-4o'',
                          messages = [(ustr ''system'', Text chart_system_message),
                                      (ustr ''user'', Text prompt)],
                          temperature = Some (2 / 10),
                          max_tokens = 2000\<rparr> of
             (Inl e, s') \<Rightarrow> (Inl e, s')
           | (Inr response, s') \<Rightarrow>
               (case normalize (content response) of
                  Inl e \<Rightarrow> (Inl e, s')
                | Inr result \<Rightarrow>
                    (case json_loads py result of
                       Some v \<Rightarrow> (Inr v, s')
                     | None \<Rightarrow> (Inl (ValueError (invalid_config_message @ take 200 result)), s')))))"

subsection \<open>\<^verbatim>\<open>generate_multiple_charts\<close> (lines 166 to 217)\<close>

text \<open>
  The request string of line 203:
  \<^verbatim>\<open>f"T\<dots>o {chart_rec['type']} chart: {chart_rec['title']}"\<close>.
\<close>

definition chart_request_of :: "builtins \<Rightarrow> json \<Rightarrow> json \<Rightarrow> pystr" where
  "chart_request_of py ty title =
     (ustr ''T'' @ [7841] @ ustr ''o '') @ py_str py ty @ ustr '' chart: '' @ py_str py title"

text \<open>
  The \<^verbatim>\<open>try\<close> block of the loop body (lines 200 to 211) for the recommendation
  \<open>chart_rec\<close> at position \<open>i\<close> (counted from 0), up to the configuration it appends.
  \<open>gen\<close> is the method \<^verbatim>\<open>self.generate_chart_config\<close>. The \<^verbatim>\<open>print\<close> of line 211
  follows the \<^verbatim>\<open>append\<close>: if it raises, the handler continues the loop and the
  configuration stays in the list, so it decides nothing here.
\<close>

definition make_chart ::
  "builtins \<Rightarrow> ('s \<Rightarrow> json \<Rightarrow> pystr \<Rightarrow> (exn + json) \<times> 's) \<Rightarrow> 's \<Rightarrow> json \<Rightarrow> nat \<Rightarrow> json
     \<Rightarrow> (exn + json) \<times> 's" where
  "make_chart py gen s extracted_data i chart_rec =
     (case getitem chart_rec (ustr ''type'') of
        Inl e \<Rightarrow> (Inl e, s)
      | Inr ty \<Rightarrow>
     (case getitem chart_rec (ustr ''title'') of
        Inl e \<Rightarrow> (Inl e, s)
      | Inr title \<Rightarrow>
     (case gen s extracted_data (chart_request_of py ty title) of
        (Inl e, s') \<Rightarrow> (Inl e, s')
      | (Inr chart_config, s') \<Rightarrow>
     (case get_method chart_rec (ustr ''priority'') (JInt (int i + 1)) of
        Inl e \<Rightarrow> (Inl e, s')
      | Inr priority \<Rightarrow>
     (case setitem chart_config (ustr ''priority'') priority of
        Inl e \<Rightarrow> (Inl e, s')
      | Inr chart_config \<Rightarrow>
     (case get_method chart_rec (ustr ''description'') (JStr []) of
        Inl e \<Rightarrow> (Inl e, s')
      | Inr description \<Rightarrow>
     (case setitem chart_config (ustr ''description'') description of
        Inl e \<Rightarrow> (Inl e, s')
      | Inr chart_config \<Rightarrow> (Inr chart_config, s'))))))))"

text \<open>
  The loop of lines 197 to 215 over the items still to visit, \<open>chart_configs\<close> being the
  list built so far. The \<^verbatim>\<open>print\<close> of line 198 reads \<^verbatim>\<open>chart_rec['title']\<close> before the
  \<^verbatim>\<open>try\<close>: when that raises, the exception leaves the function. An exception of the
  \<^verbatim>\<open>try\<close> block is caught and the loop continues.
\<close>

fun charts_loop ::
  "builtins \<Rightarrow> ('s \<Rightarrow> json \<Rightarrow> pystr \<Rightarrow> (exn + json) \<times> 's) \<Rightarrow> json \<Rightarrow> nat \<Rightarrow> json list
     \<Rightarrow> json list \<Rightarrow> 's \<Rightarrow> (exn + json list) \<times> 's" where
  "charts_loop py gen extracted_data i [] chart_configs s = (Inr chart_configs, s)"
| "charts_loop py gen extracted_data i (chart_rec # rest) chart_configs s =
     (case getitem chart_rec (ustr ''title'') of
        Inl e \<Rightarrow> (Inl e, s)
      | Inr title \<Rightarrow>
          (case make_chart py gen s extracted_data i chart_rec of
             (Inl e, s') \<Rightarrow> charts_loop py gen extracted_data (Suc i) rest chart_configs s'
           | (Inr chart_config, s') \<Rightarrow>
               charts_loop py gen extracted_data (Suc i) rest (chart_configs @ [chart_config]) s'))"

text \<open>
  Lines 183 to 192 and the slice of line 197. The two \<^verbatim>\<open>print\<close> calls of lines 191 and
  192 take \<^verbatim>\<open>len\<close> of both values and raise when one has no length.
\<close>

definition generate_multiple_charts ::
  "builtins \<Rightarrow> 's client \<Rightarrow> 's \<Rightarrow> pystr \<Rightarrow> int \<Rightarrow> (exn + json list) \<times> 's" where
  "generate_multiple_charts py client s report_content num_charts =
     (case extract_financial_data py client s report_content of
        (Inl e, s') \<Rightarrow> (Inl e, s')
      | (Inr extraction_result, s') \<Rightarrow>
     (case get_method extraction_result (ustr ''extracted_data'') (JObj []) of
        Inl e \<Rightarrow> (Inl e, s')
      | Inr extracted_data \<Rightarrow>
     (case get_method extraction_result (ustr ''recommended_charts'') (JArr []) of
        Inl e \<Rightarrow> (Inl e, s')
      | Inr recommended_charts \<Rightarrow>
     if \<not> truthy extracted_data then (Inl (ValueError no_data_message), s')
     else
     (case len extracted_data of
        Inl e \<Rightarrow> (Inl e, s')
      | Inr n_groups \<Rightarrow>
     (case len recommended_charts of
        Inl e \<Rightarrow> (Inl e, s')
      | Inr n_recommended \<Rightarrow>
     (case sliced_items recommended_charts num_charts of
        Inl e \<Rightarrow> (Inl e, s')
      | Inr items \<Rightarrow>
          charts_loop py (generate_chart_config py client) extracted_data 0 items [] s'))))))"

subsection \<open>\<^verbatim>\<open>integrate_smart_chart_to_api\<close> (lines 222 to 277)\<close>

text \<open>
  The condition of lines 240 and 241 for a request that is a string (\<^verbatim>\<open>None\<close> is
  false there, as the empty string is).
\<close>

definition has_chart_intent :: "builtins \<Rightarrow> pystr \<Rightarrow> bool" where
  "has_chart_intent py user_request =
     (user_request \<noteq> [] \<and>
      list_ex (\<lambda>keyword. contains (str_lower py user_request) keyword) chart_keywords)"

text \<open>The first branch (lines 243 to 259).\<close>

definition requested_chart ::
  "builtins \<Rightarrow> 's client \<Rightarrow> 's \<Rightarrow> pystr \<Rightarrow> pystr \<Rightarrow> (exn + json) \<times> 's" where
  "requested_chart py client s pdf_text user_request =
     (case extract_financial_data py client s pdf_text of
        (Inl e, s') \<Rightarrow> (Inl e, s')
      | (Inr extraction_result, s') \<Rightarrow>
     (case get_method extraction_result (ustr ''extracted_data'') (JObj []) of
        Inl e \<Rightarrow> (Inl e, s')
      | Inr extracted_data \<Rightarrow>
     (case generate_chart_config py client s' extracted_data user_request of
        (Inl e, s'') \<Rightarrow> (Inl e, s'')
      | (Inr chart_config, s'') \<Rightarrow>
     (case get_method extraction_result (ustr ''recommended_charts'') (JArr []) of
        Inl e \<Rightarrow> (Inl e, s'')
      | Inr recommended_charts \<Rightarrow>
          (Inr (JObj [(ustr ''extracted_data'', extracted_data),
                      (ustr ''chart_configs'', JArr [chart_config]),
                      (ustr ''recommended_charts'', recommended_charts)]), s'')))))"

text \<open>The second branch (lines 262 to 270).\<close>

definition default_charts ::
  "builtins \<Rightarrow> 's client \<Rightarrow> 's \<Rightarrow> pystr \<Rightarrow> (exn + json) \<times> 's" where
  "default_charts py client s pdf_text =
     (case generate_multiple_charts py client s pdf_text 3 of
        (Inl e, s') \<Rightarrow> (Inl e, s')
      | (Inr chart_configs, s') \<Rightarrow>
          (Inr (JObj [(ustr ''chart_configs'', JArr chart_configs)]), s'))"

text \<open>The body of the \<^verbatim>\<open>try\<close> statement (lines 239 to 270).\<close>

definition integrate_body ::
  "builtins \<Rightarrow> 's client \<Rightarrow> 's \<Rightarrow> pystr \<Rightarrow> pystr option \<Rightarrow> (exn + json) \<times> 's" where
  "integrate_body py client s pdf_text user_request =
     (case user_request of
        None \<Rightarrow> default_charts py client s pdf_text
      | Some r \<Rightarrow>
          if has_chart_intent py r then requested_chart py client s pdf_text r
          else default_charts py client s pdf_text)"

text \<open>The handler of lines 272 to 277 turns every exception into the error dictionary.\<close>

definition error_result :: "builtins \<Rightarrow> exn \<Rightarrow> json" where
  "error_result py e =
     JObj [(ustr ''error'', JStr (exn_str py e)),
           (ustr ''extracted_data'', JNull),
           (ustr ''chart_configs'', JArr [])]"

definition integrate_smart_chart_to_api ::
  "builtins \<Rightarrow> 's client \<Rightarrow> 's \<Rightarrow> pystr \<Rightarrow> pystr option \<Rightarrow> json \<times> 's" where
  "integrate_smart_chart_to_api py client s pdf_text user_request =
     (case integrate_body py client s pdf_text user_request of
        (Inl e, s') \<Rightarrow> (error_result py e, s')
      | (Inr result, s') \<Rightarrow> (result, s'))"

section \<open>CPython's \<^verbatim>\<open>str.format\<close>\<close>

text \<open>
  The model above takes \<^verbatim>\<open>str.format\<close> as a parameter. This section writes down what
  CPython (3.11, \<^verbatim>\<open>Objects/stringlib/unicode_format.h\<close>) computes for a call with
  keyword arguments only, all of them strings, as the generator makes it: the template
  is read from the left; \<^verbatim>\<open>{{\<close> and \<^verbatim>\<open>}}\<close> are literal braces; any other \<^verbatim>\<open>{\<close> opens a
  replacement field, which runs to its matching \<^verbatim>\<open>}\<close>; the field's name is looked up
  before anything else is done with the field. A field with a conversion, a non-empty
  format specification or an attribute or index after its name, once its name has been
  found, is outside what is modelled here (\<open>unmodelled\<close>); neither template reaches
  such a field. Only ASCII digits count as digits of a positional index.
\<close>

datatype fmt_state =
    Lit
  | Open
  | Close
  | Name pystr
  | Bracket pystr
  | Conv pystr
  | ConvEnd pystr
  | Spec pystr bool nat
  | Failed exn

definition unmodelled :: exn where
  "unmodelled = Other (ustr ''a replacement field outside the modelled part of str.format'')"

text \<open>
  \<^verbatim>\<open>get_integer\<close>: the positional index a field name denotes, \<open>None\<close> when it is not
  a number; too many digits raise.
\<close>

fun get_integer :: "int \<Rightarrow> pystr \<Rightarrow> exn + int option" where
  "get_integer acc [] = Inr (Some acc)"
| "get_integer acc (c # cs) =
     (if c < 48 \<or> 57 < c then Inr None
      else if acc > (9223372036854775807 - (int c - 48)) div 10
      then Inl (ValueError (ustr ''Too many decimal digits in format string''))
      else get_integer (acc * 10 + (int c - 48)) cs)"

text \<open>
  \<^verbatim>\<open>get_field_object\<close> with an empty tuple of positional arguments: an empty or
  numeric first part of the name is a positional index, which is out of range; any other
  name is a keyword. \<open>plain\<close> says that the field has no conversion and an empty
  format specification.
\<close>

definition lookup_field :: "(pystr \<times> pystr) list \<Rightarrow> pystr \<Rightarrow> bool \<Rightarrow> exn + pystr" where
  "lookup_field kwargs name plain =
     (let first = takeWhile (\<lambda>c. c \<noteq> 46 \<and> c \<noteq> 91) name;
          rest = dropWhile (\<lambda>c. c \<noteq> 46 \<and> c \<noteq> 91) name
      in if first = [] then Inl IndexError
         else
           (case get_integer 0 first of
              Inl e \<Rightarrow> Inl e
            | Inr (Some index) \<Rightarrow> Inl IndexError
            | Inr None \<Rightarrow>
                (case map_of kwargs first of
                   None \<Rightarrow> Inl (KeyError (JStr first))
                 | Some v \<Rightarrow> if rest = [] \<and> plain then Inr v else Inl unmodelled)))"

definition finish_field ::
  "(pystr \<times> pystr) list \<Rightarrow> pystr \<Rightarrow> bool \<Rightarrow> pystr \<Rightarrow> fmt_state \<times> pystr" where
  "finish_field kwargs name plain out =
     (case lookup_field kwargs name plain of
        Inl e \<Rightarrow> (Failed e, out)
      | Inr v \<Rightarrow> (Lit, out @ v))"

text \<open>
  One character of the template, \<open>out\<close> being the text written so far. First a
  character inside a field name (\<^verbatim>\<open>parse_field\<close>), then all the states
  (\<^verbatim>\<open>MarkupIterator_next\<close> and \<^verbatim>\<open>parse_field\<close>).
\<close>

definition name_char ::
  "(pystr \<times> pystr) list \<Rightarrow> pystr \<Rightarrow> pystr \<Rightarrow> nat \<Rightarrow> fmt_state \<times> pystr" where
  "name_char kwargs name out c =
     (if c = 123 then (Failed (ValueError (ustr ''unexpected '' @ [39] @ ustr ''{'' @ [39] @ ustr '' in field name'')), out)
      else if c = 91 then (Bracket (name @ [c]), out)
      else if c = 125 then finish_field kwargs name True out
      else if c = 58 then (Spec name True 1, out)
      else if c = 33 then (Conv name, out)
      else (Name (name @ [c]), out))"

fun fmt_step :: "(pystr \<times> pystr) list \<Rightarrow> fmt_state \<times> pystr \<Rightarrow> nat \<Rightarrow> fmt_state \<times> pystr" where
  "fmt_step kwargs (Lit, out) c =
     (if c = 123 then (Open, out) else if c = 125 then (Close, out) else (Lit, out @ [c]))"
| "fmt_step kwargs (Open, out) c =
     (if c = 123 then (Lit, out @ [c]) else name_char kwargs [] out c)"
| "fmt_step kwargs (Close, out) c =
     (if c = 125 then (Lit, out @ [c])
      else (Failed (ValueError (ustr ''Single '' @ [39] @ ustr ''}'' @ [39] @ ustr '' encountered in format string'')), out))"
| "fmt_step kwargs (Name name, out) c = name_char kwargs name out c"
| "fmt_step kwargs (Bracket name, out) c =
     (if c = 93 then (Name (name @ [c]), out) else (Bracket (name @ [c]), out))"
| "fmt_step kwargs (Conv name, out) c = (ConvEnd name, out)"
| "fmt_step kwargs (ConvEnd name, out) c =
     (if c = 125 then finish_field kwargs name False out
      else if c = 58 then (Spec name False 1, out)
      else (Failed (ValueError (ustr ''expected '' @ [39] @ ustr '':'' @ [39] @ ustr '' after conversion specifier'')), out))"
| "fmt_step kwargs (Spec name plain depth, out) c =
     (if c = 123 then (Spec name False (Suc depth), out)
      else if c = 125 then
        (if depth = 1 then finish_field kwargs name plain out
         else (Spec name False (depth - 1), out))
      else (Spec name False depth, out))"
| "fmt_step kwargs (Failed e, out) c = (Failed e, out)"

text \<open>The end of the template.\<close>

fun fmt_end :: "fmt_state \<times> pystr \<Rightarrow> exn + pystr" where
  "fmt_end (Lit, out) = Inr out"
| "fmt_end (Open, out) = Inl (ValueError (ustr ''Single '' @ [39] @ ustr ''{'' @ [39] @ ustr '' encountered in format string''))"
| "fmt_end (Close, out) = Inl (ValueError (ustr ''Single '' @ [39] @ ustr ''}'' @ [39] @ ustr '' encountered in format string''))"
| "fmt_end (Name name, out) = Inl (ValueError (ustr ''expected '' @ [39] @ ustr ''}'' @ [39] @ ustr '' before end of string''))"
| "fmt_end (Bracket name, out) = Inl (ValueError (ustr ''expected '' @ [39] @ ustr ''}'' @ [39] @ ustr '' before end of string''))"
| "fmt_end (Conv name, out) =
     Inl (ValueError (ustr ''end of string while looking for conversion specifier''))"
| "fmt_end (ConvEnd name, out) = Inl (ValueError (ustr ''unmatched '' @ [39] @ ustr ''{'' @ [39] @ ustr '' in format spec''))"
| "fmt_end (Spec name plain depth, out) = Inl (ValueError (ustr ''unmatched '' @ [39] @ ustr ''{'' @ [39] @ ustr '' in format spec''))"
| "fmt_end (Failed e, out) = Inl e"

definition cpython_format :: "pystr \<Rightarrow> (pystr \<times> pystr) list \<Rightarrow> exn + pystr" where
  "cpython_format template kwargs = fmt_end (foldl (fmt_step kwargs) (Lit, []) template)"

section \<open>Rendering (\<^verbatim>\<open>api_service.py\<close>)\<close>

subsection \<open>Sequencing of steps that may raise\<close>

definition bind :: "exn + 'a \<Rightarrow> ('a \<Rightarrow> exn + 'b) \<Rightarrow> exn + 'b" where
  "bind m f = (case m of Inl e \<Rightarrow> Inl e | Inr x \<Rightarrow> f x)"

subsection \<open>The plotting backend\<close>

text \<open>
  matplotlib is not part of the repository. A figure is modelled by the list of calls made
  on it, in order; each constructor stands for one call of \<^verbatim>\<open>create_chart\<close> with the
  arguments that vary (the keyword arguments the source fixes are left out):
  \<open>Plot x y label\<close> is \<^verbatim>\<open>ax.plot(x, y, marker='o', linewidth=2, markersize=8, label=label)\<close>,
  \<open>Pie values labels colors explode\<close> is
  \<^verbatim>\<open>ax.pie(values, labels=labels, autopct='%1.1f%%', colors=colors, explode=explode, shadow=True, startangle=90)\<close>,
  \<open>CellText j i v\<close> is \<^verbatim>\<open>ax.text(j, i, f'{v:.1f}', ...)\<close>, \<open>AreaLine x y\<close> is
  \<^verbatim>\<open>ax.plot(x, y, linewidth=2)\<close>, \<open>SaveFig\<close> is \<^verbatim>\<open>plt.savefig(buffer, format='png', dpi=300, ...)\<close>.
  The colours of a call are the value of the \<^verbatim>\<open>colors\<close> key, or the default:
  \<^verbatim>\<open>plt.cm.Set3(range(n))\<close> or \<^verbatim>\<open>range(n)\<close>.
\<close>

datatype colors = Given json | Set3 nat | Range nat

datatype draw =
    Plot json json json
  | Grid
  | GridY
  | Legend
  | Bar json json colors
  | Pie json json colors json
  | AxisEqual
  | Scatter json json json colors
  | Colorbar
  | Imshow json
  | SetXTicks nat
  | SetXTickLabels json
  | SetYTicks nat
  | SetYTickLabels json
  | CellText nat nat json
  | FillBetween json json
  | AreaLine json json
  | SetTitle json
  | SetXLabel json
  | SetYLabel json
  | TightLayout
  | SaveFig

text \<open>
  What the backend does is a parameter: \<open>style_use\<close> answers \<^verbatim>\<open>plt.style.use(style)\<close>
  and \<open>draw_call\<close> a call on a figure with the given content, each with \<open>None\<close> when
  the call returns and with the exception when it raises. The image \<^verbatim>\<open>savefig\<close> writes
  is modelled by the content of the figure.
\<close>

record backend =
  style_use :: "pystr \<Rightarrow> exn option"
  draw_call :: "draw list \<Rightarrow> draw \<Rightarrow> exn option"

type_synonym image = "draw list"

definition call :: "backend \<Rightarrow> draw list \<Rightarrow> draw \<Rightarrow> exn + draw list" where
  "call be fig d = (case draw_call be fig d of Some e \<Rightarrow> Inl e | None \<Rightarrow> Inr (fig @ [d]))"

text \<open>
  The state of \<^verbatim>\<open>pyplot\<close>: the numbers of the open figures and the style in use. A new
  figure gets the number after the largest one in use, as \<^verbatim>\<open>plt.figure\<close> numbers them.
\<close>

record plt =
  figures :: "nat list"
  current_style :: pystr

definition new_figure :: "nat list \<Rightarrow> nat" where
  "new_figure figs = Suc (fold max figs 0)"

definition close_figure :: "nat \<Rightarrow> plt \<Rightarrow> plt" where
  "close_figure fig st = st\<lparr>figures := removeAll fig (figures st)\<rparr>"

subsection \<open>More Python operations on values\<close>

text \<open>\<^verbatim>\<open>x[i]\<close> for an index \<open>i \<ge> 0\<close>.\<close>

fun getitem_int :: "json \<Rightarrow> nat \<Rightarrow> exn + json" where
  "getitem_int (JArr xs) i = list_item xs i"
| "getitem_int (JStr s) i = (if i < length s then Inr (JStr [s ! i]) else Inl IndexError)"
| "getitem_int (JObj d) i = Inl (KeyError (JInt (int i)))"
| "getitem_int _ i = Inl TypeError"

text \<open>
  \<^verbatim>\<open>f'{v:.1f}'\<close> formats a number (a \<^verbatim>\<open>bool\<close> is one) and raises for anything else;
  only whether it raises is modelled.
\<close>

fun format_1f :: "json \<Rightarrow> exn + unit" where
  "format_1f (JInt i) = Inr ()"
| "format_1f (JFloat r) = Inr ()"
| "format_1f (JBool b) = Inr ()"
| "format_1f (JStr s) = Inl (ValueError (ustr ''Unknown format code''))"
| "format_1f _ = Inl TypeError"

text \<open>\<^verbatim>\<open>data.get("colors", default)\<close> with a default that is not a JSON value.\<close>

fun get_colors :: "json \<Rightarrow> colors \<Rightarrow> exn + colors" where
  "get_colors (JObj d) dflt =
     Inr (case map_of d (ustr ''colors'') of Some v \<Rightarrow> Given v | None \<Rightarrow> dflt)"
| "get_colors _ dflt = Inl AttributeError"

subsection \<open>\<^verbatim>\<open>create_chart\<close> (lines 118 to 221)\<close>

text \<open>
  The branches of lines 136 to 200, each from the empty figure content \<open>fig\<close> on. The
  default of a \<^verbatim>\<open>get\<close> is computed before the call, so \<^verbatim>\<open>len\<close> raises for a value
  without a length even when the key is present.
\<close>

definition draw_line :: "backend \<Rightarrow> draw list \<Rightarrow> json \<Rightarrow> exn + draw list" where
  "draw_line be fig data =
     bind (get_method data (ustr ''x'') (JArr [])) (\<lambda>x.
     bind (get_method data (ustr ''y'') (JArr [])) (\<lambda>y.
     bind (get_method data (ustr ''label'') (JStr [])) (\<lambda>label.
     bind (call be fig (Plot x y label)) (\<lambda>fig.
     bind (call be fig Grid) (\<lambda>fig.
     if truthy label then call be fig Legend else Inr fig)))))"

definition draw_bar :: "backend \<Rightarrow> draw list \<Rightarrow> json \<Rightarrow> exn + draw list" where
  "draw_bar be fig data =
     bind (get_method data (ustr ''x'') (JArr [])) (\<lambda>x.
     bind (get_method data (ustr ''y'') (JArr [])) (\<lambda>y.
     bind (len x) (\<lambda>n.
     bind (get_colors data (Set3 n)) (\<lambda>colors.
     bind (call be fig (Bar x y colors)) (\<lambda>fig.
     call be fig GridY)))))"

definition draw_pie :: "backend \<Rightarrow> draw list \<Rightarrow> json \<Rightarrow> exn + draw list" where
  "draw_pie be fig data =
     bind (get_method data (ustr ''labels'') (JArr [])) (\<lambda>labels.
     bind (get_method data (ustr ''values'') (JArr [])) (\<lambda>values.
     bind (len labels) (\<lambda>n.
     bind (get_colors data (Set3 n)) (\<lambda>colors.
     bind (len labels) (\<lambda>n.
     bind (get_method data (ustr ''explode'') (JArr (replicate n (JFloat (5 / 100))))) (\<lambda>explode.
     bind (call be fig (Pie values labels colors explode)) (\<lambda>fig.
     call be fig AxisEqual)))))))"

definition draw_scatter :: "backend \<Rightarrow> draw list \<Rightarrow> json \<Rightarrow> exn + draw list" where
  "draw_scatter be fig data =
     bind (get_method data (ustr ''x'') (JArr [])) (\<lambda>x.
     bind (get_method data (ustr ''y'') (JArr [])) (\<lambda>y.
     bind (len x) (\<lambda>n.
     bind (get_method data (ustr ''sizes'') (JArr (replicate n (JInt 100)))) (\<lambda>sizes.
     bind (len x) (\<lambda>n.
     bind (get_colors data (Range n)) (\<lambda>colors.
     bind (call be fig (Scatter x y sizes colors)) (\<lambda>fig.
     bind (call be fig Colorbar) (\<lambda>fig.
     call be fig Grid))))))))"

text \<open>
  The two loops of lines 187 to 190 over the cells: row \<open>i\<close> is annotated at the columns
  \<open>js\<close>; \<^verbatim>\<open>len(matrix[0])\<close> is taken anew for every row.
\<close>

fun annotate_row :: "backend \<Rightarrow> json \<Rightarrow> nat \<Rightarrow> draw list \<Rightarrow> nat list \<Rightarrow> exn + draw list" where
  "annotate_row be matrix i fig [] = Inr fig"
| "annotate_row be matrix i fig (j # js) =
     bind (getitem_int matrix i) (\<lambda>row.
     bind (getitem_int row j) (\<lambda>v.
     bind (format_1f v) (\<lambda>u.
     bind (call be fig (CellText j i v)) (\<lambda>fig.
     annotate_row be matrix i fig js))))"

fun annotate_rows :: "backend \<Rightarrow> json \<Rightarrow> draw list \<Rightarrow> nat list \<Rightarrow> exn + draw list" where
  "annotate_rows be matrix fig [] = Inr fig"
| "annotate_rows be matrix fig (i # rows) =
     bind (getitem_int matrix 0) (\<lambda>first.
     bind (len first) (\<lambda>n.
     bind (annotate_row be matrix i fig [0..<n]) (\<lambda>fig.
     annotate_rows be matrix fig rows)))"

text \<open>
  \<^verbatim>\<open>ax.imshow(matrix, ...)\<close> (line 174) first turns its argument into an array. A list of
  rows of different lengths has no array shape and the call raises: since numpy 1.24 the
  conversion itself (\<^verbatim>\<open>ValueError\<close>, inhomogeneous shape), before that \<^verbatim>\<open>imshow\<close> on
  the array of objects it got (\<^verbatim>\<open>TypeError\<close>). Whatever else the call checks is the
  backend's.
\<close>

definition ragged :: "json list \<Rightarrow> bool" where
  "ragged rows =
     (\<exists>a \<in> set rows. \<exists>b \<in> set rows.
        case (a, b) of (JArr x, JArr y) \<Rightarrow> length x \<noteq> length y | _ \<Rightarrow> False)"

definition imshow :: "backend \<Rightarrow> draw list \<Rightarrow> json \<Rightarrow> exn + draw list" where
  "imshow be fig matrix =
     (case matrix of
        JArr rows \<Rightarrow>
          if ragged rows then Inl (Other (ustr ''imshow: inhomogeneous shape''))
          else call be fig (Imshow matrix)
      | _ \<Rightarrow> call be fig (Imshow matrix))"

definition draw_heatmap :: "backend \<Rightarrow> draw list \<Rightarrow> json \<Rightarrow> exn + draw list" where
  "draw_heatmap be fig data =
     bind (get_method data (ustr ''matrix'') (JArr [JArr []])) (\<lambda>matrix.
     bind (get_method data (ustr ''xlabels'') (JArr [])) (\<lambda>xlabels.
     bind (get_method data (ustr ''ylabels'') (JArr [])) (\<lambda>ylabels.
     bind (imshow be fig matrix) (\<lambda>fig.
     bind (if truthy xlabels
           then bind (len xlabels) (\<lambda>n.
                bind (call be fig (SetXTicks n)) (\<lambda>fig.
                call be fig (SetXTickLabels xlabels)))
           else Inr fig) (\<lambda>fig.
     bind (if truthy ylabels
           then bind (len ylabels) (\<lambda>n.
                bind (call be fig (SetYTicks n)) (\<lambda>fig.
                call be fig (SetYTickLabels ylabels)))
           else Inr fig) (\<lambda>fig.
     bind (call be fig Colorbar) (\<lambda>fig.
     bind (len matrix) (\<lambda>m.
     annotate_rows be matrix fig [0..<m]))))))))"

definition draw_area :: "backend \<Rightarrow> draw list \<Rightarrow> json \<Rightarrow> exn + draw list" where
  "draw_area be fig data =
     bind (get_method data (ustr ''x'') (JArr [])) (\<lambda>x.
     bind (get_method data (ustr ''y'') (JArr [])) (\<lambda>y.
     bind (call be fig (FillBetween x y)) (\<lambda>fig.
     bind (call be fig (AreaLine x y)) (\<lambda>fig.
     call be fig Grid))))"

definition unsupported_message :: pystr where
  "unsupported_message =
     ustr ''Lo'' @ [7841] @ ustr ''i bi'' @ [7875] @ ustr ''u '' @ [273, 7891] @
     ustr '' kh'' @ [244] @ ustr ''ng h'' @ [7895] @ ustr '' tr'' @ [7907] @ ustr '': ''"

definition chart_error_message :: pystr where
  "chart_error_message =
     ustr ''L'' @ [7895] @ ustr ''i t'' @ [7841] @ ustr ''o bi'' @ [7875] @ ustr ''u '' @
     [273, 7891] @ ustr '': ''"

text \<open>The body of the \<^verbatim>\<open>try\<close> statement up to \<^verbatim>\<open>savefig\<close> (lines 136 to 213).\<close>

definition draw_chart ::
  "builtins \<Rightarrow> backend \<Rightarrow> json \<Rightarrow> json \<Rightarrow> json \<Rightarrow> json \<Rightarrow> json \<Rightarrow> exn + image" where
  "draw_chart py be data chart_type title xlabel ylabel =
     bind (if chart_type = JStr (ustr ''line'') then draw_line be [] data
           else if chart_type = JStr (ustr ''bar'') then draw_bar be [] data
           else if chart_type = JStr (ustr ''pie'') then draw_pie be [] data
           else if chart_type = JStr (ustr ''scatter'') then draw_scatter be [] data
           else if chart_type = JStr (ustr ''heatmap'') then draw_heatmap be [] data
           else if chart_type = JStr (ustr ''area'') then draw_area be [] data
           else Inl (ValueError (unsupported_message @ py_str py chart_type))) (\<lambda>fig.
     bind (call be fig (SetTitle title)) (\<lambda>fig.
     bind (if truthy xlabel then call be fig (SetXLabel xlabel) else Inr fig) (\<lambda>fig.
     bind (if truthy ylabel then call be fig (SetYLabel ylabel) else Inr fig) (\<lambda>fig.
     bind (call be fig TightLayout) (\<lambda>fig.
     call be fig SaveFig)))))"

text \<open>
  \<^verbatim>\<open>create_chart\<close>: the style is applied and the figure opened before the \<^verbatim>\<open>try\<close>
  statement (lines 129 and 130), so an exception of \<^verbatim>\<open>plt.style.use\<close> leaves the
  function as it is, with no figure opened. Both exits of the \<^verbatim>\<open>try\<close> statement close
  the figure (lines 215 and 220); the handler raises \<^verbatim>\<open>HTTPException\<close> with status 400.
\<close>

definition create_chart ::
  "builtins \<Rightarrow> backend \<Rightarrow> plt \<Rightarrow> json \<Rightarrow> json \<Rightarrow> json \<Rightarrow> json \<Rightarrow> json \<Rightarrow> pystr
     \<Rightarrow> (exn + image) \<times> plt" where
  "create_chart py be st data chart_type title xlabel ylabel style =
     (case style_use be style of
        Some e \<Rightarrow> (Inl e, st)
      | None \<Rightarrow>
          (let fig = new_figure (figures st);
               st = st\<lparr>figures := figures st @ [fig], current_style := style\<rparr>
           in case draw_chart py be data chart_type title xlabel ylabel of
                Inr buffer \<Rightarrow> (Inr buffer, close_figure fig st)
              | Inl e \<Rightarrow>
                  (Inl (HTTPException 400 (chart_error_message @ exn_str py e)),
                   close_figure fig st)))"

subsection \<open>\<^verbatim>\<open>render_all_charts\<close> (lines 981 to 1053)\<close>




text \<open>
  The loop of lines 1027 to 1044. An entry of the result carries the title, the chart type
  and the image (the base64 text of line 1038 is modelled by the image it encodes).
\<close>

record chart_entry =
  entry_title :: json
  entry_chart_type :: json
  entry_image :: image


text \<open>
  The two responses: the archive with its members in order, or the dictionary
  \<^verbatim>\<open>{"success": True, "count": len(results), "charts": results}\<close>.
\<close>

datatype response =
    ZipArchive "(pystr \<times> image) list"
  | Individual bool nat "chart_entry list"


section \<open>The full pipeline (\<^verbatim>\<open>api_service.py\<close>, lines 796 to 943)\<close>

subsection \<open>Its constants\<close>










subsection \<open>The requests it sends itself\<close>



subsection \<open>The steps\<close>













section \<open>Concrete runtimes, clients and inputs\<close>

text \<open>
  Where a theorem is evaluated at a concrete input, these fill the parameters. The
  runtime \<open>example_builtins fmt table\<close> has \<open>fmt\<close> for \<^verbatim>\<open>str.format\<close> (CPython's
  \<open>cpython_format\<close> throughout), reads \<^verbatim>\<open>json.loads\<close> from a table and lowers ASCII
  letters for \<^verbatim>\<open>str.lower\<close>; what \<^verbatim>\<open>str\<close> and \<^verbatim>\<open>json.dumps\<close> print is not
  modelled, and each has one fixed text in their place. The client \<open>scripted\<close> answers
  from a script, and the backend \<open>accepting\<close> accepts every call.
\<close>

definition ascii_lower :: "pystr \<Rightarrow> pystr" where
  "ascii_lower s = map (\<lambda>c. if 65 \<le> c \<and> c \<le> 90 then c + 32 else c) s"

definition example_builtins ::
  "(pystr \<Rightarrow> (pystr \<times> pystr) list \<Rightarrow> exn + pystr) \<Rightarrow> (pystr \<times> json) list \<Rightarrow> builtins" where
  "example_builtins fmt table =
     \<lparr>str_format = fmt,
      json_loads = map_of table,
      json_dumps = (\<lambda>v. ustr ''data''),
      str_lower = ascii_lower,
      str_of = (\<lambda>v. ustr ''value''),
      str_of_exn = (\<lambda>e. ustr ''exception'')\<rparr>"

fun scripted :: "(exn + chat_response) list client" where
  "scripted [] request = (Inl (Other (ustr ''no response left'')), [])"
| "scripted (r # script) request = (r, script)"

definition answer :: "pystr \<Rightarrow> nat \<Rightarrow> exn + chat_response" where
  "answer text n = Inr \<lparr>content = text, total_tokens = n\<rparr>"

definition accepting :: backend where
  "accepting = \<lparr>style_use = (\<lambda>style. None), draw_call = (\<lambda>fig d. None)\<rparr>"

definition no_figures :: plt where
  "no_figures = \<lparr>figures = [], current_style = ustr ''default''\<rparr>"


text \<open>A recommendation as the extraction prompt asks for it.\<close>

definition recommendation :: "pystr \<Rightarrow> pystr \<Rightarrow> int \<Rightarrow> json" where
  "recommendation title ty priority =
     JObj [(ustr ''title'', JStr title), (ustr ''type'', JStr ty), (ustr ''priority'', JInt priority)]"

text \<open>
  Two completions a language model can give, each as the value \<^verbatim>\<open>json.loads\<close> returns
  for it and as its text: an extraction result whose five recommendations have the
  priorities 3, 1, 2, 5, 4 in this order (the specification's example), and a chart
  configuration. \<open>example_table\<close> is the \<^verbatim>\<open>json.loads\<close> of the runtime on these texts.
\<close>

definition five_recommendations :: "json list" where
  "five_recommendations =
     [recommendation (ustr ''C'') (ustr ''bar'') 3,
      recommendation (ustr ''A'') (ustr ''line'') 1,
      recommendation (ustr ''B'') (ustr ''pie'') 2,
      recommendation (ustr ''E'') (ustr ''area'') 5,
      recommendation (ustr ''D'') (ustr ''scatter'') 4]"

definition example_dataset :: json where
  "example_dataset = JObj [(ustr ''revenue'', JArr [JInt 100, JInt 120])]"

definition example_extraction :: json where
  "example_extraction =
     JObj [(ustr ''extracted_data'', example_dataset),
           (ustr ''recommended_charts'', JArr five_recommendations)]"

definition example_extraction_text :: pystr where
  "example_extraction_text =
     ustr ''{'' @ [34] @ ustr ''extracted_data'' @ [34] @ ustr '': {'' @ [34] @
     ustr ''revenue'' @ [34] @ ustr '': [100, 120]}, '' @ [34] @
     ustr ''recommended_charts'' @ [34] @ ustr '': [{'' @ [34] @ ustr ''title'' @ [34] @
     ustr '': '' @ [34] @ ustr ''C'' @ [34] @ ustr '', '' @ [34] @ ustr ''type'' @ [34] @
     ustr '': '' @ [34] @ ustr ''bar'' @ [34] @ ustr '', '' @ [34] @ ustr ''priority'' @
     [34] @ ustr '': 3}, {'' @ [34] @ ustr ''title'' @ [34] @ ustr '': '' @ [34] @
     ustr ''A'' @ [34] @ ustr '', '' @ [34] @ ustr ''type'' @ [34] @ ustr '': '' @ [34] @
     ustr ''line'' @ [34] @ ustr '', '' @ [34] @ ustr ''priority'' @ [34] @
     ustr '': 1}, {'' @ [34] @ ustr ''title'' @ [34] @ ustr '': '' @ [34] @ ustr ''B'' @
     [34] @ ustr '', '' @ [34] @ ustr ''type'' @ [34] @ ustr '': '' @ [34] @ ustr ''pie'' @
     [34] @ ustr '', '' @ [34] @ ustr ''priority'' @ [34] @ ustr '': 2}, {'' @ [34] @
     ustr ''title'' @ [34] @ ustr '': '' @ [34] @ ustr ''E'' @ [34] @ ustr '', '' @ [34] @
     ustr ''type'' @ [34] @ ustr '': '' @ [34] @ ustr ''area'' @ [34] @ ustr '', '' @ [34] @
     ustr ''priority'' @ [34] @ ustr '': 5}, {'' @ [34] @ ustr ''title'' @ [34] @
     ustr '': '' @ [34] @ ustr ''D'' @ [34] @ ustr '', '' @ [34] @ ustr ''type'' @ [34] @
     ustr '': '' @ [34] @ ustr ''scatter'' @ [34] @ ustr '', '' @ [34] @ ustr ''priority'' @
     [34] @ ustr '': 4}]}''"

definition example_config :: json where
  "example_config =
     JObj [(ustr ''chart_type'', JStr (ustr ''bar'')), (ustr ''title'', JStr (ustr ''Revenue'')),
     (ustr ''data'', JObj [(ustr ''x'', JArr [JStr (ustr ''Q1''), JStr (ustr ''Q2'')]), (ustr
     ''y'', JArr [JInt 100, JInt 120])])]"

definition example_config_text :: pystr where
  "example_config_text =
     ustr ''{'' @ [34] @ ustr ''chart_type'' @ [34] @ ustr '': '' @ [34] @ ustr ''bar'' @
     [34] @ ustr '', '' @ [34] @ ustr ''title'' @ [34] @ ustr '': '' @ [34] @
     ustr ''Revenue'' @ [34] @ ustr '', '' @ [34] @ ustr ''data'' @ [34] @ ustr '': {'' @
     [34] @ ustr ''x'' @ [34] @ ustr '': ['' @ [34] @ ustr ''Q1'' @ [34] @ ustr '', '' @
     [34] @ ustr ''Q2'' @ [34] @ ustr ''], '' @ [34] @ ustr ''y'' @ [34] @
     ustr '': [100, 120]}}''"

definition example_table :: "(pystr \<times> json) list" where
  "example_table =
     [(example_extraction_text, example_extraction),
      (example_config_text, example_config)]"

text \<open>\<open>reported\<close> adds up the token counts of the logged calls.\<close>

definition reported :: "(chat_request \<times> chat_response) list \<Rightarrow> nat" where
  "reported entries = sum_list (map (\<lambda>(request, response). total_tokens response) entries)"


text \<open>
  The six chart kinds of \<^verbatim>\<open>create_chart\<close>. What one iteration of \<^verbatim>\<open>render_all_charts\<close>
  makes of a configuration does not depend on the state of \<^verbatim>\<open>pyplot\<close>: \<open>rendered\<close> is
  its outcome, \<open>image_of\<close> the image and \<open>entry_for\<close> the entry of the result list when
  it succeeds.
\<close>

definition chart_kinds :: "json list" where
  "chart_kinds = [JStr (ustr ''line''), JStr (ustr ''bar''), JStr (ustr ''pie''),
                  JStr (ustr ''scatter''), JStr (ustr ''heatmap''), JStr (ustr ''area'')]"











section \<open>Properties of the fence stripping\<close>

text \<open>Two ASCII literals are the same string exactly when they are the same literal.\<close>

lemma ustr_eq_iff [simp]: "(ustr a = ustr b) = (a = b)"
  unfolding ustr_def by (metis (no_types) inj_map_eq_map inj_on_def of_char_eq_iff)

lemma strip_idem: "strip (strip s) = strip s"
proof -
  define t where "t = dropWhile is_space s"
  define u where "u = rev (dropWhile is_space (rev t))"
  have keep: "dropWhile is_space (rev u) = rev u"
    by (simp add: u_def)
  have "u = take (length t - length (takeWhile is_space (rev t))) t"
    by (simp add: u_def dropWhile_eq_drop rev_drop)
  then have "u = [] \<or> hd u = hd t"
    by (metis hd_take take_eq_Nil gr_zeroI)
  moreover have "t = [] \<or> \<not> is_space (hd t)"
    unfolding t_def by (metis hd_dropWhile)
  moreover have "t = [] \<Longrightarrow> u = []"
    by (simp add: u_def)
  ultimately have "u = [] \<or> \<not> is_space (hd u)"
    by auto
  then have "dropWhile is_space u = u"
    by (cases u) auto
  then show ?thesis
    unfolding strip_def using keep by (simp add: t_def u_def)
qed

lemma fence_facts: "fence \<noteq> []" "length fence = 3"
  by (simp_all add: fence_def ustr_def)

text \<open>The first piece the split reads is the text up to the next fence.\<close>

lemma split_from_head: "\<exists>rest. split_from fence cur s = (cur @ until_fence s) # rest"
proof (induction s arbitrary: cur)
  case Nil
  show ?case by simp
next
  case (Cons c cs)
  show ?case
  proof (cases "prefix fence (c # cs)")
    case True
    then show ?thesis by (simp add: fence_facts)
  next
    case False
    from Cons [of "cur @ [c]"] False show ?thesis by simp
  qed
qed

text \<open>So index 1 of the split of a fenced text exists and is the content after the fence.\<close>

lemma split_fenced:
  assumes "prefix fence s"
  shows "list_item (str_split s fence) 1 = Inr (until_fence (drop 3 s))"
proof -
  from assms obtain c cs where s: "s = c # cs"
    by (cases s) (auto simp: fence_def ustr_def)
  from split_from_head [of "[]" "drop 3 s"] obtain rest
    where "split_from fence [] (drop 3 s) = until_fence (drop 3 s) # rest" by auto
  then have "str_split s fence = [] # until_fence (drop 3 s) # rest"
    using assms fence_facts unfolding str_split_def s by simp
  then show ?thesis by (simp add: list_item_def)
qed

text \<open>
  Claim C6. For every input, the fence stripping of the source returns, without raising,
  what the policy of the specification describes: for an input that begins with a fence
  after trimming, the content between the opening fence and the next one, without a
  leading \<^verbatim>\<open>json\<close> tag, trimmed; otherwise the trimmed input. The fenced and the plain
  form of the specification's example both give the text \<^verbatim>\<open>{"a":1}\<close>.
\<close>

theorem normalize_follows_policy:
  "normalize raw = Inr (spec_normalize raw)
   \<and> normalize ([96, 96, 96] @ ustr ''json'' @ [10] @ ustr ''{'' @ [34] @ ustr ''a'' @ [34] @ ustr '':1}'' @ [10, 96, 96, 96]) = Inr (ustr ''{'' @ [34] @ ustr ''a'' @ [34] @ ustr '':1}'')
   \<and> normalize (ustr ''{'' @ [34] @ ustr ''a'' @ [34] @ ustr '':1}'') = Inr (ustr ''{'' @ [34] @ ustr ''a'' @ [34] @ ustr '':1}'')"
proof -
  have general: "normalize raw = Inr (spec_normalize raw)" for raw
  proof (cases "prefix fence (strip raw)")
    case True
    then show ?thesis
      using split_fenced [OF True]
      by (simp add: normalize_def spec_normalize_def Let_def startswith_def)
  next
    case False
    then show ?thesis
      by (simp add: normalize_def spec_normalize_def Let_def startswith_def strip_idem)
  qed
  have plain: "spec_normalize (ustr ''{'' @ [34] @ ustr ''a'' @ [34] @ ustr '':1}'') = ustr ''{'' @ [34] @ ustr ''a'' @ [34] @ ustr '':1}''"
    by (simp add: spec_normalize_def Let_def fence_def ustr_def strip_def is_space_def)
  have fenced: "spec_normalize ([96, 96, 96] @ ustr ''json'' @ [10] @ ustr ''{'' @ [34] @ ustr ''a'' @ [34] @ ustr '':1}'' @ [10, 96, 96, 96]) = ustr ''{'' @ [34] @ ustr ''a'' @ [34] @ ustr '':1}''"
    by (simp add: spec_normalize_def Let_def fence_def ustr_def strip_def is_space_def)
  show ?thesis
    using general plain fenced by simp
qed

theorem normalize_follows_policy_witness:
  "normalize (ustr ''  ```chart```  '') = Inr (ustr ''chart'')"
proof -
  have "spec_normalize (ustr ''  ```chart```  '') = ustr ''chart''"
    by (simp add: spec_normalize_def Let_def fence_def ustr_def strip_def is_space_def)
  then show ?thesis
    using normalize_follows_policy [of "ustr ''  ```chart```  ''"] by simp
qed

section \<open>The prompt templates under CPython's \<^verbatim>\<open>str.format\<close>\<close>

text \<open>The state after a character does not depend on the text written so far.\<close>

lemma fmt_step_state: "fst (fmt_step kw (st, out) c) = fst (fmt_step kw (st, []) c)"
  by (cases st) (auto simp: name_char_def finish_field_def split: sum.splits)

lemma foldl_fmt_state:
  "fst (foldl (fmt_step kw) (st, out) t) = fst (foldl (fmt_step kw) (st, []) t)"
proof (induction t arbitrary: st out)
  case Nil
  show ?case by simp
next
  case (Cons c cs)
  obtain st1 out1 where s1: "fmt_step kw (st, out) c = (st1, out1)"
    by (cases "fmt_step kw (st, out) c")
  obtain st2 out2 where s2: "fmt_step kw (st, []) c = (st2, out2)"
    by (cases "fmt_step kw (st, []) c")
  have "st1 = st2"
    using fmt_step_state [of kw st out c] s1 s2 by simp
  then show ?case
    using Cons [of st1 out1] Cons [of st2 out2] s1 s2 by simp
qed

lemma fmt_state_step:
  "fst (foldl (fmt_step kw) (st, out) (c # cs)) =
   fst (foldl (fmt_step kw) (fst (fmt_step kw (st, []) c), []) cs)"
proof -
  obtain st1 out1 where s1: "fmt_step kw (st, out) c = (st1, out1)"
    by (cases "fmt_step kw (st, out) c")
  have "fst (fmt_step kw (st, []) c) = st1"
    using fmt_step_state [of kw st out c] s1 by simp
  then show ?thesis
    using s1 foldl_fmt_state [of kw st1 out1 cs] by simp
qed

lemma fmt_end_failed: "fst x = Failed e \<Longrightarrow> fmt_end x = Inl e"
  by (cases x) simp

text \<open>
  Both templates show their JSON example with single braces. CPython reads the first of
  them as a replacement field whose name is the text up to the colon, finds no such
  keyword argument and raises \<^verbatim>\<open>KeyError\<close>, whatever the arguments are.
\<close>

lemma extraction_prompt_key_error:
  "cpython_format EXTRACTION_PROMPT [(ustr ''report_content'', report_content)] =
   Inl (KeyError (JStr ([10] @ ustr ''    '' @ [34] @ ustr ''extracted_data'' @ [34])))"
  unfolding cpython_format_def
  by (rule fmt_end_failed)
     (simp add: EXTRACTION_PROMPT_def ustr_def name_char_def finish_field_def lookup_field_def
        fmt_state_step del: foldl_Cons)

lemma chart_prompt_key_error:
  "cpython_format CHART_GENERATION_PROMPT
     [(ustr ''extracted_data'', dumped), (ustr ''chart_request'', chart_request)] =
   Inl (KeyError (JStr ([10] @ ustr ''    '' @ [34] @ ustr ''chart_type'' @ [34])))"
  unfolding cpython_format_def
  by (rule fmt_end_failed)
     (simp add: CHART_GENERATION_PROMPT_def ustr_def name_char_def finish_field_def
        lookup_field_def fmt_state_step del: foldl_Cons)

text \<open>
  Hence, with CPython's \<^verbatim>\<open>str.format\<close>, neither method of the generator reaches the
  language model: each raises while it builds its prompt, and the state of the service
  is untouched.
\<close>

lemma extract_raises_under_cpython:
  "str_format py = cpython_format \<Longrightarrow>
   extract_financial_data py client s report_content =
     (Inl (KeyError (JStr ([10] @ ustr ''    '' @ [34] @ ustr ''extracted_data'' @ [34]))), s)"
  by (simp add: extract_financial_data_def extraction_prompt_key_error)

lemma generate_raises_under_cpython:
  "str_format py = cpython_format \<Longrightarrow>
   generate_chart_config py client s extracted_data chart_request =
     (Inl (KeyError (JStr ([10] @ ustr ''    '' @ [34] @ ustr ''chart_type'' @ [34]))), s)"
  by (simp add: generate_chart_config_def chart_prompt_key_error)

section \<open>The chart generator: which recommendations are synthesized\<close>

text \<open>
  With CPython's \<^verbatim>\<open>str.format\<close> the first step of \<^verbatim>\<open>generate_multiple_charts\<close>
  (line 183) raises, so the function is left before it reads a recommendation.
\<close>

lemma generate_multiple_charts_raises:
  "str_format py = cpython_format \<Longrightarrow>
   generate_multiple_charts py client s report_content num_charts =
     (Inl (KeyError (JStr ([10] @ ustr ''    '' @ [34] @ ustr ''extracted_data'' @ [34]))), s)"
  by (simp add: generate_multiple_charts_def extract_raises_under_cpython)

text \<open>
  Claim C1 has the orchestrator synthesize a specification for the \<^verbatim>\<open>max_charts\<close>
  recommendations of smallest priority. The code synthesizes none: for every runtime
  with CPython's \<^verbatim>\<open>str.format\<close>, every service, report and number of charts,
  \<^verbatim>\<open>generate_multiple_charts\<close> raises the \<^verbatim>\<open>KeyError\<close> of line 96 and leaves the
  service as it was. So it is at the specification's example: two charts are asked for,
  and the service would answer the extraction with the five recommendations of
  priorities 3, 1, 2, 5, 4 and each synthesis with a configuration; none of its three
  answers is asked for.
\<close>

theorem no_recommendation_synthesized:
  "generate_multiple_charts (py\<lparr>str_format := cpython_format\<rparr>) client s report_content num_charts =
     (Inl (KeyError (JStr ([10] @ ustr ''    '' @ [34] @ ustr ''extracted_data'' @ [34]))), s)
   \<and> generate_multiple_charts (example_builtins cpython_format example_table) scripted
       [answer example_extraction_text 7, answer example_config_text 5,
        answer example_config_text 5]
       (ustr ''Q1: 100, Q2: 120'') 2 =
     (Inl (KeyError (JStr ([10] @ ustr ''    '' @ [34] @ ustr ''extracted_data'' @ [34]))),
      [answer example_extraction_text 7, answer example_config_text 5,
       answer example_config_text 5])"
proof -
  have "str_format (py\<lparr>str_format := cpython_format\<rparr>) = cpython_format"
    and "str_format (example_builtins cpython_format example_table) = cpython_format"
    by (simp_all add: example_builtins_def)
  then show ?thesis
    by (simp add: generate_multiple_charts_raises)
qed

section \<open>The integration function: one requested chart, and the error dictionary\<close>

text \<open>
  An exception of the extraction leaves the \<^verbatim>\<open>try\<close> block on either branch, and the
  handler turns it into the error dictionary.
\<close>

lemma extraction_fails_body:
  "extract_financial_data py client s pdf_text = (Inl e, s') \<Longrightarrow>
   integrate_body py client s pdf_text user_request = (Inl e, s')"
  by (simp add: integrate_body_def requested_chart_def default_charts_def
        generate_multiple_charts_def split: option.splits)

lemma integrate_under_cpython:
  "str_format py = cpython_format \<Longrightarrow>
   integrate_smart_chart_to_api py client s pdf_text user_request =
     (error_result py
        (KeyError (JStr ([10] @ ustr ''    '' @ [34] @ ustr ''extracted_data'' @ [34]))), s)"
  using extraction_fails_body [OF extract_raises_under_cpython, of py client s pdf_text user_request]
  by (simp add: integrate_smart_chart_to_api_def)

lemma example_intent:
  "has_chart_intent (example_builtins fmt table) (ustr ''Draw a CHART of the revenue'')"
  "has_chart_intent (example_builtins fmt table) (ustr ''chart'')"
  by (simp_all add: has_chart_intent_def example_builtins_def ascii_lower_def chart_keywords_def
        ustr_def)

text \<open>
  Claim C7 has a request with a chart-intent keyword give exactly one specification. The
  branch of lines 243 to 259 visibly builds the list of one configuration (line 257),
  and never gets there: for every runtime with CPython's \<^verbatim>\<open>str.format\<close>, every service,
  report and request, the \<^verbatim>\<open>chart_configs\<close> of the result is the empty list. So it is
  for the request below, which has a keyword, with a service that would answer the
  extraction and the synthesis: the result is the error dictionary and none of the two
  answers is asked for.
\<close>

theorem requested_chart_never_built:
  "getitem (fst (integrate_smart_chart_to_api (py\<lparr>str_format := cpython_format\<rparr>) client s pdf_text
                   (Some user_request)))
     (ustr ''chart_configs'') = Inr (JArr [])
   \<and> has_chart_intent (example_builtins cpython_format example_table)
       (ustr ''Draw a CHART of the revenue'')
   \<and> integrate_smart_chart_to_api (example_builtins cpython_format example_table) scripted
       [answer example_extraction_text 7, answer example_config_text 5]
       (ustr ''Q1: 100, Q2: 120'') (Some (ustr ''Draw a CHART of the revenue'')) =
     (JObj [(ustr ''error'',
             JStr (exn_str (example_builtins cpython_format example_table)
                    (KeyError (JStr ([10] @ ustr ''    '' @ [34] @ ustr ''extracted_data'' @ [34]))))),
            (ustr ''extracted_data'', JNull),
            (ustr ''chart_configs'', JArr [])],
      [answer example_extraction_text 7, answer example_config_text 5])"
proof -
  have general: "str_format (py\<lparr>str_format := cpython_format\<rparr>) = cpython_format"
    and example: "str_format (example_builtins cpython_format example_table) = cpython_format"
    by (simp_all add: example_builtins_def)
  have a: "getitem (fst (integrate_smart_chart_to_api (py\<lparr>str_format := cpython_format\<rparr>) client s
                           pdf_text (Some user_request)))
             (ustr ''chart_configs'') = Inr (JArr [])"
    by (simp add: integrate_under_cpython [OF general] error_result_def)
  have b: "integrate_smart_chart_to_api (example_builtins cpython_format example_table) scripted
       [answer example_extraction_text 7, answer example_config_text 5]
       (ustr ''Q1: 100, Q2: 120'') (Some (ustr ''Draw a CHART of the revenue'')) =
     (JObj [(ustr ''error'',
             JStr (exn_str (example_builtins cpython_format example_table)
                    (KeyError (JStr ([10] @ ustr ''    '' @ [34] @ ustr ''extracted_data'' @ [34]))))),
            (ustr ''extracted_data'', JNull),
            (ustr ''chart_configs'', JArr [])],
      [answer example_extraction_text 7, answer example_config_text 5])"
    unfolding integrate_under_cpython [OF example]
    by (simp add: error_result_def)
  show ?thesis
    using a b example_intent(1) [of cpython_format example_table] by blast
qed



text \<open>
  Claim C5 at three inputs, each with a service that would answer the extraction with a
  well-formed result that is not empty. CPython's \<^verbatim>\<open>str.format\<close> raises while the
  extraction builds its prompt, and the answer is never asked for: the extraction fails
  although the completion would be parseable and its \<^verbatim>\<open>extracted_data\<close> not empty. So
  it is on both paths that call the extraction: the branch of the requested chart, which
  returns the error dictionary, and \<^verbatim>\<open>generate_multiple_charts\<close>.
\<close>

theorem extraction_failure_at_inputs:
  "extract_financial_data (example_builtins cpython_format example_table) scripted
     [answer example_extraction_text 7] (ustr ''Q1: 100, Q2: 120'') =
     (Inl (KeyError (JStr ([10] @ ustr ''    '' @ [34] @ ustr ''extracted_data'' @ [34]))),
      [answer example_extraction_text 7])
   \<and> integrate_smart_chart_to_api (example_builtins cpython_format example_table) scripted
       [answer example_extraction_text 7, answer example_config_text 5]
       (ustr ''Q1: 100, Q2: 120'') (Some (ustr ''chart'')) =
     (JObj [(ustr ''error'',
             JStr (exn_str (example_builtins cpython_format example_table)
                    (KeyError (JStr ([10] @ ustr ''    '' @ [34] @ ustr ''extracted_data'' @ [34]))))),
            (ustr ''extracted_data'', JNull),
            (ustr ''chart_configs'', JArr [])],
      [answer example_extraction_text 7, answer example_config_text 5])
   \<and> generate_multiple_charts (example_builtins cpython_format example_table) scripted
       [answer example_extraction_text 7, answer example_config_text 5]
       (ustr ''Q1: 100, Q2: 120'') 3 =
     (Inl (KeyError (JStr ([10] @ ustr ''    '' @ [34] @ ustr ''extracted_data'' @ [34]))),
      [answer example_extraction_text 7, answer example_config_text 5])"
proof -
  have fmt: "str_format (example_builtins cpython_format example_table) = cpython_format"
    by (simp add: example_builtins_def)
  have a: "extract_financial_data (example_builtins cpython_format example_table) scripted
     [answer example_extraction_text 7] (ustr ''Q1: 100, Q2: 120'') =
     (Inl (KeyError (JStr ([10] @ ustr ''    '' @ [34] @ ustr ''extracted_data'' @ [34]))),
      [answer example_extraction_text 7])"
    by (rule extract_raises_under_cpython [OF fmt])
  have b: "integrate_smart_chart_to_api (example_builtins cpython_format example_table) scripted
       [answer example_extraction_text 7, answer example_config_text 5]
       (ustr ''Q1: 100, Q2: 120'') (Some (ustr ''chart'')) =
     (JObj [(ustr ''error'',
             JStr (exn_str (example_builtins cpython_format example_table)
                    (KeyError (JStr ([10] @ ustr ''    '' @ [34] @ ustr ''extracted_data'' @ [34]))))),
            (ustr ''extracted_data'', JNull),
            (ustr ''chart_configs'', JArr [])],
      [answer example_extraction_text 7, answer example_config_text 5])"
    unfolding integrate_under_cpython [OF fmt]
    by (simp add: error_result_def)
  have c: "generate_multiple_charts (example_builtins cpython_format example_table) scripted
       [answer example_extraction_text 7, answer example_config_text 5]
       (ustr ''Q1: 100, Q2: 120'') 3 =
     (Inl (KeyError (JStr ([10] @ ustr ''    '' @ [34] @ ustr ''extracted_data'' @ [34]))),
      [answer example_extraction_text 7, answer example_config_text 5])"
    by (simp add: generate_multiple_charts_raises [OF fmt])
  show ?thesis
    using a b c by blast
qed

section \<open>Rendering: the figure, the defaults and the failures\<close>

lemma fold_max_bounds: "(a::nat) \<le> fold max figs a \<and> (\<forall>x \<in> set figs. x \<le> fold max figs a)"
proof (induction figs arbitrary: a)
  case Nil
  show ?case by simp
next
  case (Cons f figs)
  from Cons [of "max f a"] show ?case by auto
qed

lemma new_figure_fresh: "new_figure figs \<notin> set figs"
  using fold_max_bounds [of 0 figs] by (auto simp: new_figure_def)

lemma close_new_figure:
  "figures (close_figure (new_figure (figures st))
     (st\<lparr>figures := figures st @ [new_figure (figures st)], current_style := style\<rparr>)) =
   figures st"
  using new_figure_fresh [of "figures st"] by (simp add: close_figure_def)

text \<open>
  Claim C9. Whatever the inputs and whatever the backend does, the figures open after
  \<^verbatim>\<open>create_chart\<close> are those open before it, and the figure the call opens is not among
  them: it is closed when the drawing succeeds (line 215) and when it raises (line 220).
  When \<^verbatim>\<open>plt.style.use\<close> raises, no figure has been opened.
\<close>

theorem create_chart_closes_figure:
  "figures (snd (create_chart py be st data chart_type title xlabel ylabel style)) = figures st
   \<and> new_figure (figures st)
       \<notin> set (figures (snd (create_chart py be st data chart_type title xlabel ylabel style)))"
proof -
  have "figures (snd (create_chart py be st data chart_type title xlabel ylabel style)) = figures st"
    using close_new_figure [of st style]
    by (simp add: create_chart_def Let_def split: option.splits sum.splits)
  then show ?thesis
    using new_figure_fresh [of "figures st"] by simp
qed

theorem create_chart_closes_figure_witness:
  "figures (snd (create_chart (example_builtins cpython_format []) accepting
      \<lparr>figures = [1, 5], current_style = ustr ''default''\<rparr>
      (JObj []) (JStr (ustr ''donut'')) (JStr (ustr ''Revenue'')) JNull JNull (ustr ''seaborn''))) =
   [1, 5]"
  using create_chart_closes_figure [of "example_builtins cpython_format []" accepting
      "\<lparr>figures = [1, 5], current_style = ustr ''default''\<rparr>" "JObj []" "JStr (ustr ''donut'')"
      "JStr (ustr ''Revenue'')" JNull JNull "ustr ''seaborn''"]
  by simp

lemma call_appends: "call be fig d = Inr fig' \<Longrightarrow> fig' = fig @ [d]"
  by (auto simp: call_def split: option.splits)

lemma bind_Inr: "bind m f = Inr y \<Longrightarrow> \<exists>x. m = Inr x \<and> f x = Inr y"
  by (cases m) (auto simp: bind_def)

lemma optional_call_appends:
  "(if c then call be fig d else Inr fig) = Inr fig' \<Longrightarrow> \<exists>more. fig' = fig @ more"
  by (auto dest: call_appends split: if_splits)

text \<open>The calls after the branch of the chart type only add to the figure.\<close>

lemma finish_appends:
  assumes "bind (call be fig (SetTitle title)) (\<lambda>fig.
           bind (if truthy xlabel then call be fig (SetXLabel xlabel) else Inr fig) (\<lambda>fig.
           bind (if truthy ylabel then call be fig (SetYLabel ylabel) else Inr fig) (\<lambda>fig.
           bind (call be fig TightLayout) (\<lambda>fig.
           call be fig SaveFig)))) = Inr png"
  shows "\<exists>more. png = fig @ more"
proof -
  from bind_Inr [OF assms] obtain f1 where
    a1: "call be fig (SetTitle title) = Inr f1" and
    r1: "bind (if truthy xlabel then call be f1 (SetXLabel xlabel) else Inr f1) (\<lambda>fig.
         bind (if truthy ylabel then call be fig (SetYLabel ylabel) else Inr fig) (\<lambda>fig.
         bind (call be fig TightLayout) (\<lambda>fig. call be fig SaveFig))) = Inr png"
    by blast
  from bind_Inr [OF r1] obtain f2 where
    a2: "(if truthy xlabel then call be f1 (SetXLabel xlabel) else Inr f1) = Inr f2" and
    r2: "bind (if truthy ylabel then call be f2 (SetYLabel ylabel) else Inr f2) (\<lambda>fig.
         bind (call be fig TightLayout) (\<lambda>fig. call be fig SaveFig)) = Inr png"
    by blast
  from bind_Inr [OF r2] obtain f3 where
    a3: "(if truthy ylabel then call be f2 (SetYLabel ylabel) else Inr f2) = Inr f3" and
    r3: "bind (call be f3 TightLayout) (\<lambda>fig. call be fig SaveFig) = Inr png"
    by blast
  from bind_Inr [OF r3] obtain f4 where
    a4: "call be f3 TightLayout = Inr f4" and a5: "call be f4 SaveFig = Inr png"
    by blast
  from call_appends [OF a1] optional_call_appends [OF a2] optional_call_appends [OF a3]
    call_appends [OF a4] call_appends [OF a5]
  show ?thesis by auto
qed

lemma draw_pie_first:
  assumes "map_of d (ustr ''explode'') = None" and "draw_pie be [] (JObj d) = Inr fig"
  shows "\<exists>n colors. len (case map_of d (ustr ''labels'') of Some v \<Rightarrow> v | None \<Rightarrow> JArr []) = Inr n
     \<and> fig = [Pie (case map_of d (ustr ''values'') of Some v \<Rightarrow> v | None \<Rightarrow> JArr [])
                  (case map_of d (ustr ''labels'') of Some v \<Rightarrow> v | None \<Rightarrow> JArr [])
                  colors (JArr (replicate n (JFloat (5 / 100)))), AxisEqual]"
  using assms
  by (auto simp: draw_pie_def bind_def call_def split: sum.splits option.splits)

text \<open>
  Claim C8. For every pie chart whose data has no \<^verbatim>\<open>explode\<close> key, a rendering that
  succeeds has drawn the pie with an \<^verbatim>\<open>explode\<close> list of \<^verbatim>\<open>len(labels)\<close> entries, each
  0.05 (line 156), \<^verbatim>\<open>labels\<close> being the value of the key or the empty list: the pie call
  is the first call on the figure.
\<close>

theorem pie_default_explode:
  assumes "map_of d (ustr ''explode'') = None"
    and "fst (create_chart py be st (JObj d) (JStr (ustr ''pie'')) title xlabel ylabel style) = Inr png"
  shows "\<exists>n colors more.
           len (case map_of d (ustr ''labels'') of Some v \<Rightarrow> v | None \<Rightarrow> JArr []) = Inr n
           \<and> png = Pie (case map_of d (ustr ''values'') of Some v \<Rightarrow> v | None \<Rightarrow> JArr [])
                        (case map_of d (ustr ''labels'') of Some v \<Rightarrow> v | None \<Rightarrow> JArr [])
                        colors (JArr (replicate n (JFloat (5 / 100)))) # more"
proof -
  from assms(2) have drawn: "draw_chart py be (JObj d) (JStr (ustr ''pie'')) title xlabel ylabel = Inr png"
    by (auto simp: create_chart_def Let_def split: option.splits sum.splits)
  then have "bind (draw_pie be [] (JObj d)) (\<lambda>fig.
           bind (call be fig (SetTitle title)) (\<lambda>fig.
           bind (if truthy xlabel then call be fig (SetXLabel xlabel) else Inr fig) (\<lambda>fig.
           bind (if truthy ylabel then call be fig (SetYLabel ylabel) else Inr fig) (\<lambda>fig.
           bind (call be fig TightLayout) (\<lambda>fig.
           call be fig SaveFig))))) = Inr png"
    by (simp add: draw_chart_def)
  from bind_Inr [OF this] obtain fig where
    pie: "draw_pie be [] (JObj d) = Inr fig" and
    rest: "bind (call be fig (SetTitle title)) (\<lambda>fig.
           bind (if truthy xlabel then call be fig (SetXLabel xlabel) else Inr fig) (\<lambda>fig.
           bind (if truthy ylabel then call be fig (SetYLabel ylabel) else Inr fig) (\<lambda>fig.
           bind (call be fig TightLayout) (\<lambda>fig.
           call be fig SaveFig)))) = Inr png"
    by blast
  from finish_appends [OF rest] obtain more where "png = fig @ more" by blast
  with draw_pie_first [OF assms(1) pie] show ?thesis by auto
qed

text \<open>The specification's example: four labels and no \<^verbatim>\<open>explode\<close> give four times 0.05.\<close>

theorem pie_default_explode_witness:
  "fst (create_chart (example_builtins cpython_format []) accepting no_figures
          (JObj [(ustr ''labels'', JArr [JStr (ustr ''a''), JStr (ustr ''b''), JStr (ustr ''c''),
                                         JStr (ustr ''d'')]),
                 (ustr ''values'', JArr [JInt 40, JInt 30, JInt 20, JInt 10])])
          (JStr (ustr ''pie'')) (JStr (ustr ''Share'')) JNull JNull (ustr ''seaborn'')) =
   Inr [Pie (JArr [JInt 40, JInt 30, JInt 20, JInt 10])
            (JArr [JStr (ustr ''a''), JStr (ustr ''b''), JStr (ustr ''c''), JStr (ustr ''d'')])
            (Set3 4)
            (JArr [JFloat (5 / 100), JFloat (5 / 100), JFloat (5 / 100), JFloat (5 / 100)]),
        AxisEqual, SetTitle (JStr (ustr ''Share'')), TightLayout, SaveFig]"
proof -
  let ?d = "[(ustr ''labels'', JArr [JStr (ustr ''a''), JStr (ustr ''b''), JStr (ustr ''c''),
                                     JStr (ustr ''d'')]),
             (ustr ''values'', JArr [JInt 40, JInt 30, JInt 20, JInt 10])]"
  let ?run = "fst (create_chart (example_builtins cpython_format []) accepting no_figures
          (JObj ?d) (JStr (ustr ''pie'')) (JStr (ustr ''Share'')) JNull JNull (ustr ''seaborn''))"
  have no_key: "map_of ?d (ustr ''explode'') = None"
    by simp
  have four: "replicate 4 x = [x, x, x, x]" for x :: json
    by (simp add: numeral_eq_Suc)
  have shape: "?run = Inr [Pie (JArr [JInt 40, JInt 30, JInt 20, JInt 10])
            (JArr [JStr (ustr ''a''), JStr (ustr ''b''), JStr (ustr ''c''), JStr (ustr ''d'')])
            (Set3 4)
            (case get_method (JObj ?d) (ustr ''explode'') (JArr (replicate 4 (JFloat (5 / 100)))) of
               Inr v \<Rightarrow> v | Inl e \<Rightarrow> JNull),
        AxisEqual, SetTitle (JStr (ustr ''Share'')), TightLayout, SaveFig]"
    by (simp add: create_chart_def draw_chart_def draw_pie_def bind_def call_def accepting_def
          no_figures_def Let_def four)
  from pie_default_explode [OF no_key shape] obtain n colors more where
    n: "len (JArr [JStr (ustr ''a''), JStr (ustr ''b''), JStr (ustr ''c''), JStr (ustr ''d'')]) = Inr n"
    and explode: "(case get_method (JObj ?d) (ustr ''explode'') (JArr (replicate 4 (JFloat (5 / 100)))) of
               Inr v \<Rightarrow> v | Inl e \<Rightarrow> JNull) = JArr (replicate n (JFloat (5 / 100)))"
    by auto
  from n have "n = 4" by simp
  with explode shape show ?thesis
    by (simp add: four)
qed

text \<open>What makes \<^verbatim>\<open>create_chart\<close> fail, and what does not.\<close>

lemma create_chart_400:
  assumes "style_use be style = None"
    and "draw_chart py be data chart_type title xlabel ylabel = Inl e"
  shows "fst (create_chart py be st data chart_type title xlabel ylabel style) =
         Inl (HTTPException 400 (chart_error_message @ exn_str py e))"
  using assms by (simp add: create_chart_def Let_def)

lemma unsupported_kind:
  assumes "chart_type \<notin> set chart_kinds"
  shows "draw_chart py be data chart_type title xlabel ylabel =
         Inl (ValueError (unsupported_message @ py_str py chart_type))"
  using assms by (simp add: draw_chart_def chart_kinds_def bind_def)

lemma draw_heatmap_ragged:
  assumes "map_of d (ustr ''matrix'') = Some (JArr rows)" and "ragged rows"
  shows "draw_heatmap be [] (JObj d) = Inl (Other (ustr ''imshow: inhomogeneous shape''))"
  using assms by (simp add: draw_heatmap_def bind_def imshow_def)

lemma draw_bar_no_length:
  assumes "map_of d (ustr ''x'') = Some v" and "len v = Inl e"
  shows "draw_bar be [] (JObj d) = Inl e"
  using assms by (simp add: draw_bar_def bind_def)

lemma line_and_area_accepted:
  assumes "draw_call be = (\<lambda>fig d. None)"
  shows "\<exists>fig. draw_line be [] (JObj d) = Inr fig" "\<exists>fig. draw_area be [] (JObj d) = Inr fig"
  using assms by (simp_all add: draw_line_def draw_area_def bind_def call_def)

lemma empty_data_accepted:
  assumes "draw_call be = (\<lambda>fig d. None)"
  shows "\<exists>fig. draw_bar be [] (JObj []) = Inr fig" "\<exists>fig. draw_pie be [] (JObj []) = Inr fig"
    "\<exists>fig. draw_scatter be [] (JObj []) = Inr fig" "\<exists>fig. draw_heatmap be [] (JObj []) = Inr fig"
  using assms
  by (simp_all add: draw_bar_def draw_pie_def draw_scatter_def draw_heatmap_def imshow_def
        ragged_def bind_def call_def list_item_def)

lemma finish_accepted:
  assumes "draw_call be = (\<lambda>fig d. None)"
  shows "\<exists>png. bind (call be fig (SetTitle title)) (\<lambda>fig.
           bind (if truthy xlabel then call be fig (SetXLabel xlabel) else Inr fig) (\<lambda>fig.
           bind (if truthy ylabel then call be fig (SetYLabel ylabel) else Inr fig) (\<lambda>fig.
           bind (call be fig TightLayout) (\<lambda>fig.
           call be fig SaveFig)))) = Inr png"
  using assms by (simp add: bind_def call_def)

lemma create_chart_succeeds:
  assumes "style_use be style = None" and "draw_chart py be data chart_type title xlabel ylabel = Inr png"
  shows "fst (create_chart py be st data chart_type title xlabel ylabel style) = Inr png"
  using assms by (simp add: create_chart_def Let_def)

text \<open>
  Claim C4, as the code has it. When the backend rejects the style, its exception leaves
  \<^verbatim>\<open>create_chart\<close> as it is (line 129 is before the \<^verbatim>\<open>try\<close>). When it accepts the
  style, rendering fails with status 400 for a chart type that is not one of the six
  kinds and, for a heatmap, for a matrix whose rows have unequal lengths, whatever else
  the backend does. A missing data key is not a failure: every key is read with a default
  (the empty list, or one empty row for the matrix), so with a backend that accepts its
  calls a line or an area chart renders for every data dictionary, and every kind renders
  for the empty dictionary. These are not the only failures: a bar chart whose \<^verbatim>\<open>x\<close> has
  no length fails with status 400 at line 148, with every key present.
\<close>

theorem render_failures:
  "(style_use be style = Some e
      \<longrightarrow> create_chart py be st data chart_type title xlabel ylabel style = (Inl e, st))
   \<and> (style_use be style = None \<and> chart_type \<notin> set chart_kinds
      \<longrightarrow> fst (create_chart py be st data chart_type title xlabel ylabel style) =
            Inl (HTTPException 400
                   (chart_error_message @ unsupported_message @ py_str py chart_type)))
   \<and> (style_use be style = None \<and> map_of d (ustr ''matrix'') = Some (JArr rows) \<and> ragged rows
      \<longrightarrow> (\<exists>detail. fst (create_chart py be st (JObj d) (JStr (ustr ''heatmap'')) title xlabel
                            ylabel style) =
                     Inl (HTTPException 400 detail)))
   \<and> (style_use be style = None \<and> draw_call be = (\<lambda>fig d. None)
        \<and> (chart_type = JStr (ustr ''line'') \<or> chart_type = JStr (ustr ''area''))
      \<longrightarrow> (\<exists>png. fst (create_chart py be st (JObj d) chart_type title xlabel ylabel style) =
                   Inr png))
   \<and> (style_use be style = None \<and> draw_call be = (\<lambda>fig d. None) \<and> chart_type \<in> set chart_kinds
      \<longrightarrow> (\<exists>png. fst (create_chart py be st (JObj []) chart_type title xlabel ylabel style) =
                   Inr png))
   \<and> (style_use be style = None \<and> map_of d (ustr ''x'') = Some v \<and> len v = Inl e
      \<longrightarrow> fst (create_chart py be st (JObj d) (JStr (ustr ''bar'')) title xlabel ylabel style) =
            Inl (HTTPException 400 (chart_error_message @ exn_str py e)))"
proof -
  have rejected: "create_chart py be st data chart_type title xlabel ylabel style = (Inl e, st)"
    if "style_use be style = Some e"
    using that by (simp add: create_chart_def)
  have unknown: "fst (create_chart py be st data chart_type title xlabel ylabel style) =
      Inl (HTTPException 400 (chart_error_message @ unsupported_message @ py_str py chart_type))"
    if "style_use be style = None" "chart_type \<notin> set chart_kinds"
    using create_chart_400 [OF that(1) unsupported_kind [OF that(2)], where st = st]
    by (simp add: exn_str_def)
  have unequal: "\<exists>detail. fst (create_chart py be st (JObj d) (JStr (ustr ''heatmap'')) title xlabel
                                   ylabel style) = Inl (HTTPException 400 detail)"
    if "style_use be style = None" "map_of d (ustr ''matrix'') = Some (JArr rows)" "ragged rows"
  proof -
    have "draw_chart py be (JObj d) (JStr (ustr ''heatmap'')) title xlabel ylabel =
          Inl (Other (ustr ''imshow: inhomogeneous shape''))"
      using draw_heatmap_ragged [OF that(2,3), of be] by (simp add: draw_chart_def bind_def ustr_def)
    from create_chart_400 [OF that(1) this] show ?thesis by blast
  qed
  have drawn: "\<exists>png. draw_chart py be data' kind title xlabel ylabel = Inr png"
    if acc: "draw_call be = (\<lambda>fig d. None)"
      and branch: "\<exists>fig. (if kind = JStr (ustr ''line'') then draw_line be [] data'
           else if kind = JStr (ustr ''bar'') then draw_bar be [] data'
           else if kind = JStr (ustr ''pie'') then draw_pie be [] data'
           else if kind = JStr (ustr ''scatter'') then draw_scatter be [] data'
           else if kind = JStr (ustr ''heatmap'') then draw_heatmap be [] data'
           else if kind = JStr (ustr ''area'') then draw_area be [] data'
           else Inl (ValueError (unsupported_message @ py_str py kind))) = Inr fig"
    for data' kind
  proof -
    from branch obtain fig where f: "(if kind = JStr (ustr ''line'') then draw_line be [] data'
           else if kind = JStr (ustr ''bar'') then draw_bar be [] data'
           else if kind = JStr (ustr ''pie'') then draw_pie be [] data'
           else if kind = JStr (ustr ''scatter'') then draw_scatter be [] data'
           else if kind = JStr (ustr ''heatmap'') then draw_heatmap be [] data'
           else if kind = JStr (ustr ''area'') then draw_area be [] data'
           else Inl (ValueError (unsupported_message @ py_str py kind))) = Inr fig"
      by blast
    from finish_accepted [OF acc, of fig title xlabel ylabel] show ?thesis
      unfolding draw_chart_def f by (simp add: bind_def)
  qed
  have plain: "\<exists>png. fst (create_chart py be st (JObj d) chart_type title xlabel ylabel style) = Inr png"
    if "style_use be style = None" "draw_call be = (\<lambda>fig d. None)"
      "chart_type = JStr (ustr ''line'') \<or> chart_type = JStr (ustr ''area'')"
  proof -
    from drawn [OF that(2), of chart_type "JObj d"] line_and_area_accepted [OF that(2), of d] that(3)
    obtain png where "draw_chart py be (JObj d) chart_type title xlabel ylabel = Inr png"
      by auto
    from create_chart_succeeds [OF that(1) this] show ?thesis by blast
  qed
  have empty: "\<exists>png. fst (create_chart py be st (JObj []) chart_type title xlabel ylabel style) = Inr png"
    if "style_use be style = None" "draw_call be = (\<lambda>fig d. None)" "chart_type \<in> set chart_kinds"
  proof -
    from drawn [OF that(2), of chart_type "JObj []"] line_and_area_accepted [OF that(2), of "[]"]
      empty_data_accepted [OF that(2)] that(3)
    obtain png where "draw_chart py be (JObj []) chart_type title xlabel ylabel = Inr png"
      by (auto simp: chart_kinds_def)
    from create_chart_succeeds [OF that(1) this] show ?thesis by blast
  qed
  have no_length: "fst (create_chart py be st (JObj d) (JStr (ustr ''bar'')) title xlabel ylabel
                          style) =
      Inl (HTTPException 400 (chart_error_message @ exn_str py e))"
    if "style_use be style = None" "map_of d (ustr ''x'') = Some v" "len v = Inl e"
  proof -
    have "draw_chart py be (JObj d) (JStr (ustr ''bar'')) title xlabel ylabel = Inl e"
      using draw_bar_no_length [OF that(2,3), of be] by (simp add: draw_chart_def bind_def ustr_def)
    from create_chart_400 [OF that(1) this] show ?thesis .
  qed
  show ?thesis
    using rejected unknown unequal plain empty no_length by blast
qed

text \<open>
  The theorem at concrete inputs, with the specification's two matrices: the rows
  \<^verbatim>\<open>[[1,2,3],[4,5]]\<close> fail with status 400, and so do the rows \<^verbatim>\<open>[[1,2],[3,4,5]]\<close>;
  the rows \<^verbatim>\<open>[[1,2],[3,4]]\<close> render when the backend accepts the calls. A rejected
  style leaves with its own exception; an unknown kind fails with status 400; a line chart
  without data and an area chart without \<^verbatim>\<open>x\<close> render; a bar chart whose \<^verbatim>\<open>x\<close> is 5
  fails with status 400.
\<close>

theorem render_failures_witness:
  "(\<exists>detail.
      fst (create_chart (example_builtins cpython_format []) accepting no_figures
             (JObj [(ustr ''matrix'', JArr [JArr [JInt 1, JInt 2, JInt 3], JArr [JInt 4, JInt 5]])])
             (JStr (ustr ''heatmap'')) (JStr (ustr ''Load'')) JNull JNull (ustr ''seaborn'')) =
      Inl (HTTPException 400 detail))
   \<and> (\<exists>detail.
      fst (create_chart (example_builtins cpython_format []) accepting no_figures
             (JObj [(ustr ''matrix'', JArr [JArr [JInt 1, JInt 2], JArr [JInt 3, JInt 4, JInt 5]])])
             (JStr (ustr ''heatmap'')) (JStr (ustr ''Load'')) JNull JNull (ustr ''seaborn'')) =
      Inl (HTTPException 400 detail))
   \<and> fst (create_chart (example_builtins cpython_format []) accepting no_figures
               (JObj [(ustr ''matrix'', JArr [JArr [JInt 1, JInt 2], JArr [JInt 3, JInt 4]])])
               (JStr (ustr ''heatmap'')) (JStr (ustr ''Load'')) JNull JNull (ustr ''seaborn'')) =
       Inr [Imshow (JArr [JArr [JInt 1, JInt 2], JArr [JInt 3, JInt 4]]), Colorbar,
            CellText 0 0 (JInt 1), CellText 1 0 (JInt 2), CellText 0 1 (JInt 3),
            CellText 1 1 (JInt 4), SetTitle (JStr (ustr ''Load'')), TightLayout, SaveFig]
   \<and> create_chart (example_builtins cpython_format [])
         (accepting\<lparr>style_use := \<lambda>style. Some (Other (ustr ''OSError''))\<rparr>) no_figures (JObj [])
         (JStr (ustr ''line'')) (JStr (ustr ''Revenue'')) JNull JNull (ustr ''seaborn'') =
       (Inl (Other (ustr ''OSError'')), no_figures)
   \<and> fst (create_chart (example_builtins cpython_format []) accepting no_figures (JObj [])
            (JStr (ustr ''donut'')) (JStr (ustr ''Share'')) JNull JNull (ustr ''seaborn'')) =
       Inl (HTTPException 400 (chart_error_message @ unsupported_message @ ustr ''donut''))
   \<and> (\<exists>png. fst (create_chart (example_builtins cpython_format []) accepting no_figures (JObj [])
                   (JStr (ustr ''line'')) (JStr (ustr ''Revenue'')) JNull JNull (ustr ''seaborn'')) =
              Inr png)
   \<and> (\<exists>png. fst (create_chart (example_builtins cpython_format []) accepting no_figures
                   (JObj [(ustr ''y'', JArr [JInt 100, JInt 120])])
                   (JStr (ustr ''area'')) (JStr (ustr ''Revenue'')) JNull JNull (ustr ''seaborn'')) =
              Inr png)
   \<and> fst (create_chart (example_builtins cpython_format []) accepting no_figures
            (JObj [(ustr ''x'', JInt 5), (ustr ''y'', JArr [JInt 1])])
            (JStr (ustr ''bar'')) (JStr (ustr ''Revenue'')) JNull JNull (ustr ''seaborn'')) =
       Inl (HTTPException 400
              (chart_error_message @ exn_str (example_builtins cpython_format []) TypeError))"
proof -
  let ?py = "example_builtins cpython_format []"
  let ?short = "[JArr [JInt 1, JInt 2, JInt 3], JArr [JInt 4, JInt 5]]"
  let ?long = "[JArr [JInt 1, JInt 2], JArr [JInt 3, JInt 4, JInt 5]]"
  let ?bar = "[(ustr ''x'', JInt 5), (ustr ''y'', JArr [JInt 1])]"
  let ?rejecting = "accepting\<lparr>style_use := \<lambda>style. Some (Other (ustr ''OSError''))\<rparr>"
  have style: "style_use accepting (ustr ''seaborn'') = None"
    and calls: "draw_call accepting = (\<lambda>fig d. None)"
    and no_style: "style_use ?rejecting (ustr ''seaborn'') = Some (Other (ustr ''OSError''))"
    by (simp_all add: accepting_def)
  have donut: "JStr (ustr ''donut'') \<notin> set chart_kinds"
    and line: "JStr (ustr ''line'') \<in> set chart_kinds"
    by (simp_all add: chart_kinds_def)
  have unequal: "ragged ?short" "ragged ?long"
    by (simp_all add: ragged_def)
  have a: "\<exists>detail. fst (create_chart ?py accepting no_figures (JObj [(ustr ''matrix'', JArr ?short)])
                           (JStr (ustr ''heatmap'')) (JStr (ustr ''Load'')) JNull JNull
                           (ustr ''seaborn'')) = Inl (HTTPException 400 detail)"
    using render_failures [where be = accepting and style = "ustr ''seaborn''" and py = ?py
        and st = no_figures and title = "JStr (ustr ''Load'')" and xlabel = JNull and ylabel = JNull
        and d = "[(ustr ''matrix'', JArr ?short)]" and rows = ?short,
        THEN conjunct2, THEN conjunct2, THEN conjunct1] style unequal(1)
    by simp
  have a': "\<exists>detail. fst (create_chart ?py accepting no_figures (JObj [(ustr ''matrix'', JArr ?long)])
                           (JStr (ustr ''heatmap'')) (JStr (ustr ''Load'')) JNull JNull
                           (ustr ''seaborn'')) = Inl (HTTPException 400 detail)"
    using render_failures [where be = accepting and style = "ustr ''seaborn''" and py = ?py
        and st = no_figures and title = "JStr (ustr ''Load'')" and xlabel = JNull and ylabel = JNull
        and d = "[(ustr ''matrix'', JArr ?long)]" and rows = ?long,
        THEN conjunct2, THEN conjunct2, THEN conjunct1] style unequal(2)
    by simp
  have b: "fst (create_chart ?py accepting no_figures
               (JObj [(ustr ''matrix'', JArr [JArr [JInt 1, JInt 2], JArr [JInt 3, JInt 4]])])
               (JStr (ustr ''heatmap'')) (JStr (ustr ''Load'')) JNull JNull (ustr ''seaborn'')) =
       Inr [Imshow (JArr [JArr [JInt 1, JInt 2], JArr [JInt 3, JInt 4]]), Colorbar,
            CellText 0 0 (JInt 1), CellText 1 0 (JInt 2), CellText 0 1 (JInt 3),
            CellText 1 1 (JInt 4), SetTitle (JStr (ustr ''Load'')), TightLayout, SaveFig]"
    by (simp add: create_chart_def draw_chart_def draw_heatmap_def imshow_def ragged_def bind_def
          call_def accepting_def no_figures_def Let_def list_item_def upt_rec)
  have c: "create_chart ?py ?rejecting no_figures (JObj []) (JStr (ustr ''line''))
             (JStr (ustr ''Revenue'')) JNull JNull (ustr ''seaborn'') =
           (Inl (Other (ustr ''OSError'')), no_figures)"
    using render_failures [where be = ?rejecting and style = "ustr ''seaborn''"
        and e = "Other (ustr ''OSError'')" and py = ?py and st = no_figures and data = "JObj []"
        and chart_type = "JStr (ustr ''line'')" and title = "JStr (ustr ''Revenue'')"
        and xlabel = JNull and ylabel = JNull, THEN conjunct1] no_style
    by simp
  have d: "fst (create_chart ?py accepting no_figures (JObj []) (JStr (ustr ''donut''))
                  (JStr (ustr ''Share'')) JNull JNull (ustr ''seaborn'')) =
           Inl (HTTPException 400 (chart_error_message @ unsupported_message @ ustr ''donut''))"
    using render_failures [where be = accepting and style = "ustr ''seaborn''" and py = ?py
        and st = no_figures and data = "JObj []" and chart_type = "JStr (ustr ''donut'')"
        and title = "JStr (ustr ''Share'')" and xlabel = JNull and ylabel = JNull,
        THEN conjunct2, THEN conjunct1]
      style donut
    by (simp add: py_str_def)
  have e: "\<exists>png. fst (create_chart ?py accepting no_figures (JObj []) (JStr (ustr ''line''))
                         (JStr (ustr ''Revenue'')) JNull JNull (ustr ''seaborn'')) = Inr png"
    using render_failures [where be = accepting and style = "ustr ''seaborn''" and py = ?py
        and st = no_figures and chart_type = "JStr (ustr ''line'')"
        and title = "JStr (ustr ''Revenue'')" and xlabel = JNull and ylabel = JNull,
        THEN conjunct2, THEN conjunct2, THEN conjunct2, THEN conjunct2, THEN conjunct1]
      style calls line
    by simp
  have e': "\<exists>png. fst (create_chart ?py accepting no_figures
                          (JObj [(ustr ''y'', JArr [JInt 100, JInt 120])]) (JStr (ustr ''area''))
                          (JStr (ustr ''Revenue'')) JNull JNull (ustr ''seaborn'')) = Inr png"
    using render_failures [where be = accepting and style = "ustr ''seaborn''" and py = ?py
        and st = no_figures and chart_type = "JStr (ustr ''area'')"
        and title = "JStr (ustr ''Revenue'')" and xlabel = JNull and ylabel = JNull
        and d = "[(ustr ''y'', JArr [JInt 100, JInt 120])]",
        THEN conjunct2, THEN conjunct2, THEN conjunct2, THEN conjunct1]
      style calls
    by simp
  have f: "fst (create_chart ?py accepting no_figures (JObj ?bar) (JStr (ustr ''bar''))
                  (JStr (ustr ''Revenue'')) JNull JNull (ustr ''seaborn'')) =
           Inl (HTTPException 400 (chart_error_message @ exn_str ?py TypeError))"
    using render_failures [where be = accepting and style = "ustr ''seaborn''" and e = TypeError
        and py = ?py and st = no_figures and title = "JStr (ustr ''Revenue'')" and xlabel = JNull
        and ylabel = JNull and d = ?bar and v = "JInt 5",
        THEN conjunct2, THEN conjunct2, THEN conjunct2, THEN conjunct2, THEN conjunct2] style
    by simp
  show ?thesis
    using a a' b c d e e' f by blast
qed

text \<open>
  Claim C4 as stated fails in both directions. A line chart whose data has neither
  \<^verbatim>\<open>x\<close> nor \<^verbatim>\<open>y\<close>, the two required keys, does not fail: the defaults are drawn. A
  bar chart fails with status 400 although its kind is one of the six and both of its
  keys are there: its \<^verbatim>\<open>x\<close> is the number 5, and \<^verbatim>\<open>len(x)\<close> raises at line 148.
\<close>

theorem missing_keys_counterexample:
  "fst (create_chart (example_builtins cpython_format []) accepting no_figures (JObj [])
          (JStr (ustr ''line'')) (JStr (ustr ''Revenue'')) JNull JNull (ustr ''seaborn'')) =
   Inr [Plot (JArr []) (JArr []) (JStr []), Grid, SetTitle (JStr (ustr ''Revenue'')),
        TightLayout, SaveFig]
   \<and> fst (create_chart (example_builtins cpython_format []) accepting no_figures
            (JObj [(ustr ''x'', JInt 5), (ustr ''y'', JArr [JInt 1])])
            (JStr (ustr ''bar'')) (JStr (ustr ''Revenue'')) JNull JNull (ustr ''seaborn'')) =
       Inl (HTTPException 400
              (chart_error_message @ exn_str (example_builtins cpython_format []) TypeError))"
  by (simp add: create_chart_def draw_chart_def draw_line_def draw_bar_def bind_def call_def
        accepting_def no_figures_def Let_def ustr_def)

section \<open>Rendering a batch\<close>





















section \<open>The token statistic of the pipeline\<close>

text \<open>
  The pipeline runs with a logged client, so that the calls of a run can be compared with
  the statistic. The image loop and the final analysis add to the counter what the
  service reports for each of their calls.
\<close>

lemma reported_append [simp]: "reported (xs @ ys) = reported xs + reported ys"
  by (simp add: reported_def)













section \<open>The generator's methods under CPython's \<^verbatim>\<open>str.format\<close>\<close>

text \<open>
  With CPython's \<^verbatim>\<open>str.format\<close> both methods of the generator raise
  \<^verbatim>\<open>KeyError\<close> while they build their prompt (lines 96 and 137), for every report,
  dataset and request, and leave the service as it was: the first single brace of the
  JSON example in the template opens a replacement field that no keyword argument names.
\<close>

theorem generator_raises_key_error:
  "extract_financial_data (py\<lparr>str_format := cpython_format\<rparr>) client s report_content =
     (Inl (KeyError (JStr ([10] @ ustr ''    '' @ [34] @ ustr ''extracted_data'' @ [34]))), s)
   \<and> generate_chart_config (py\<lparr>str_format := cpython_format\<rparr>) client s extracted_data
       chart_request =
     (Inl (KeyError (JStr ([10] @ ustr ''    '' @ [34] @ ustr ''chart_type'' @ [34]))), s)"
  by (simp add: extract_raises_under_cpython generate_raises_under_cpython)

end
